theory Spec2Isabelle
  imports Complex_Main "HOL-Library.Multiset"
begin

section \<open>Exceptions and results\<close>

text \<open>
  Neither \<open>gammafit/sherpamod.py\<close> nor \<open>examples/CrabNebula_IC_We.py\<close> contains a
  \<open>try\<close> statement, so every exception raised while a function body runs ends the call.
  A call is modelled as a value of \<open>error + 'a\<close>: \<open>Inl e\<close> is the exception \<open>e\<close> reaching
  the caller, \<open>Inr v\<close> is the returned value. \<open>LibraryError\<close> stands for whatever an
  external library (astropy, naima.models, gammafit.utils) raises; its tag is chosen by the
  library.
\<close>

datatype error =
    ValueError
  | IndexError
  | KeyError string
  | NameError string
  | AttributeError string
  | OverflowError
  | LibraryError string

definition thenR :: "error + 'a \<Rightarrow> ('a \<Rightarrow> error + 'b) \<Rightarrow> error + 'b" where
  "thenR m k = (case m of Inl e \<Rightarrow> Inl e | Inr v \<Rightarrow> k v)"

section \<open>numpy arrays\<close>

text \<open>
  A one-dimensional float array is a list of numbers; IEEE doubles are idealised as reals
  (no rounding and no NaN; numpy arithmetic on arrays does not raise on overflow, and the
  one operation of the two files that does, a power of a Python float, is modelled with it
  in \<open>pow10\<close> below). The numpy primitives used by \<open>_mergex\<close> and by
  \<open>calc\<close> are written out with the failures numpy has on one-dimensional operands:
  an elementwise binary operation broadcasts a one-element operand and raises
  \<open>ValueError\<close> on any other length mismatch; index \<open>-1\<close> of an empty array raises
  \<open>IndexError\<close>; assigning to the slice \<open>[:n]\<close> needs a value of the slice's length
  or of length one.
\<close>

type_synonym ndarray = "real list"

definition np_zeros :: "nat \<Rightarrow> ndarray" where
  "np_zeros n = replicate n 0"

definition np_binop :: "(real \<Rightarrow> real \<Rightarrow> real) \<Rightarrow> ndarray \<Rightarrow> ndarray \<Rightarrow> error + ndarray" where
  "np_binop f xs ys =
     (if length xs = length ys then Inr (map2 f xs ys)
      else if length xs = 1 then Inr (map (f (hd xs)) ys)
      else if length ys = 1 then Inr (map (\<lambda>x. f x (hd ys)) xs)
      else Inl ValueError)"

definition np_last :: "ndarray \<Rightarrow> error + real" where
  "np_last xs = (if xs = [] then Inl IndexError else Inr (last xs))"

definition np_set_last :: "ndarray \<Rightarrow> real \<Rightarrow> error + ndarray" where
  "np_set_last xs v = (if xs = [] then Inl IndexError else Inr (xs[length xs - 1 := v]))"

definition np_set_upto :: "ndarray \<Rightarrow> nat \<Rightarrow> ndarray \<Rightarrow> error + ndarray" where
  "np_set_upto x n v =
     (let m = min n (length x) in
      if length v = m then Inr (v @ drop m x)
      else if length v = 1 then Inr (replicate m (hd v) @ drop m x)
      else Inl ValueError)"

definition np_from1 :: "ndarray \<Rightarrow> ndarray" where
  "np_from1 xs = drop 1 xs"

definition np_upto_last :: "ndarray \<Rightarrow> ndarray" where
  "np_upto_last xs = take (length xs - 1) xs"

section \<open>\<open>_mergex\<close> on a store of arrays\<close>

text \<open>
  \<open>_mergex\<close> receives references to the caller's arrays, allocates arrays of its own and
  writes into them in place (\<open>x[:N] = ...\<close>, \<open>x[-1] = ...\<close>, \<open>x.sort()\<close>). The store is the
  list of all arrays alive; a reference is an index into it, and allocation appends.

  \<^verbatim>\<open>
  def _mergex(xlo,xhi,midpoints=False):
      N=xlo.size
      x=np.zeros(N+1)
      x[:N]=xlo.copy()
      x[-1]=xhi[-1]
      if midpoints:
          mid=(xlo+xhi)/2.
          x=np.concatenate((x,mid))
          x.sort()
      return x
  \<close>
\<close>

type_synonym store = "ndarray list"
type_synonym aref = nat

definition alloc :: "store \<Rightarrow> ndarray \<Rightarrow> aref \<times> store" where
  "alloc h a = (length h, h @ [a])"

definition mergex_midpoints :: "store \<Rightarrow> aref \<Rightarrow> aref \<Rightarrow> aref \<Rightarrow> error + (aref \<times> store)" where
  "mergex_midpoints h xlo xhi x =
     thenR (np_binop (+) (h ! xlo) (h ! xhi)) (\<lambda>s.
       let (t, h1) = alloc h s;
           (mid, h2) = alloc h1 (map (\<lambda>v. v / 2) (h1 ! t));
           (x', h3) = alloc h2 (h2 ! x @ h2 ! mid);
           h4 = h3[x' := sort (h3 ! x')]
       in Inr (x', h4))"

definition mergex_store :: "store \<Rightarrow> aref \<Rightarrow> aref \<Rightarrow> bool \<Rightarrow> error + (aref \<times> store)" where
  "mergex_store h xlo xhi midpoints =
     (let N = length (h ! xlo);
          (x, h1) = alloc h (np_zeros (N + 1));
          (c, h2) = alloc h1 (h1 ! xlo)
      in thenR (np_set_upto (h2 ! x) N (h2 ! c)) (\<lambda>x1.
           let h3 = h2[x := x1] in
           thenR (np_last (h3 ! xhi)) (\<lambda>l.
             thenR (np_set_last (h3 ! x) l) (\<lambda>x2.
               let h4 = h3[x := x2] in
               if midpoints then mergex_midpoints h4 xlo xhi x
               else Inr (x, h4)))))"

text \<open>
  The value \<open>_mergex\<close> returns to a caller that holds the two arrays \<open>xlo\<close> and \<open>xhi\<close>:
  the call runs in a store holding just these two, and the returned reference is read.
\<close>

definition mergex :: "ndarray \<Rightarrow> ndarray \<Rightarrow> bool \<Rightarrow> error + ndarray" where
  "mergex xlo xhi midpoints =
     (case mergex_store [xlo, xhi] 0 1 midpoints of
        Inl e \<Rightarrow> Inl e
      | Inr (r, h) \<Rightarrow> Inr (h ! r))"

section \<open>The external libraries\<close>

text \<open>
  Units are kept as the expressions the code writes: \<open>u.keV\<close> is \<open>UName ''keV''\<close>,
  a unit given as a string (\<open>u.Unit('1/eV')\<close>, \<open>.to('1/(s cm2)')\<close>) is \<open>UStr\<close> of that
  string, and products, quotients and powers are the constructors. A quantity is a value
  (a number or an array) with a unit.
\<close>

datatype aunit =
    UName string
  | UStr string
  | UMul aunit aunit
  | UDiv aunit aunit
  | UPow aunit nat
  | UInv aunit

datatype 'a quantity = Quantity (qvalue: 'a) (qunit: aunit)

text \<open>
  The objects of \<open>naima.models\<close> are kept as the class and the constructor arguments the
  code gives; \<open>beta\<close> is \<open>None\<close> where the call leaves it to the library's default. A seed
  photon field is either a name (\<open>'CMB'\<close>) or a list of a name, a temperature and an
  energy density.
\<close>

datatype pdist =
    is_PowerLaw: PowerLaw "real quantity" "real quantity" real
  | is_ExponentialCutoffPowerLaw: ExponentialCutoffPowerLaw "real quantity" "real quantity" real "real quantity" "real option"

datatype seed =
    SeedName string
  | SeedField string "real quantity" "real quantity"

record ic_model =
  particle_distribution :: pdist
  seed_photon_fields :: "seed list"
  ic_kwargs :: "(string \<times> real) list"

type_synonym table = "(string \<times> ndarray quantity) list"

datatype flux_arg = Energies "ndarray quantity" | DataTable table

text \<open>
  What the libraries compute is not part of the repository and is a parameter of the model:
  \<^item> \<open>unit_names\<close>: the attribute names that \<open>astropy.units\<close> defines;
  \<^item> \<open>unit_scale a b\<close>: the factor by which \<open>Quantity.to\<close> multiplies a value in unit
    \<open>a\<close> to express it in unit \<open>b\<close>, or the exception it raises;
  \<^item> \<open>new_pdist\<close>, \<open>new_IC\<close>: the exception a constructor raises on its arguments, if any;
  \<^item> \<open>IC_flux\<close>: \<open>InverseCompton.flux\<close> on energies or a data table, with an optional
    distance;
  \<^item> \<open>IC_set_We\<close>: \<open>InverseCompton.set_We\<close>, which rescales the amplitude of the particle
    distribution object the model holds; the result is that object after the call;
  \<^item> \<open>pdist_eval\<close>: calling a particle distribution on energies;
  \<^item> \<open>trapz_loglog\<close>: the function of that name of \<open>gammafit.utils\<close>.
\<close>

record extern =
  unit_names :: "string list"
  unit_scale :: "aunit \<Rightarrow> aunit \<Rightarrow> error + real"
  new_pdist :: "pdist \<Rightarrow> error option"
  new_IC :: "ic_model \<Rightarrow> error option"
  IC_flux :: "ic_model \<Rightarrow> flux_arg \<Rightarrow> real quantity option \<Rightarrow> error + ndarray quantity"
  IC_set_We :: "ic_model \<Rightarrow> real quantity \<Rightarrow> real quantity \<Rightarrow> error + pdist"
  pdist_eval :: "pdist \<Rightarrow> ndarray quantity \<Rightarrow> error + ndarray quantity"
  trapz_loglog :: "ndarray quantity \<Rightarrow> ndarray quantity \<Rightarrow> error + real quantity"

definition getattr_u :: "extern \<Rightarrow> string \<Rightarrow> error + aunit" where
  "getattr_u lib n = (if n \<in> set (unit_names lib) then Inr (UName n) else Inl (AttributeError n))"

definition construct :: "('a \<Rightarrow> error option) \<Rightarrow> 'a \<Rightarrow> error + 'a" where
  "construct chk obj = (case chk obj of Some e \<Rightarrow> Inl e | None \<Rightarrow> Inr obj)"

definition to :: "extern \<Rightarrow> ndarray quantity \<Rightarrow> aunit \<Rightarrow> error + ndarray quantity" where
  "to lib q target =
     thenR (unit_scale lib (qunit q) target) (\<lambda>c.
       Inr (Quantity (map (\<lambda>v. v * c) (qvalue q)) target))"

text \<open>
  Arithmetic on array quantities. The two operands of \<open>-\<close> and \<open>+\<close> in \<open>calc\<close> are slices
  of one array, so they carry the same unit, which is the unit of the result.
\<close>

definition qmul :: "ndarray quantity \<Rightarrow> ndarray quantity \<Rightarrow> error + ndarray quantity" where
  "qmul a b = thenR (np_binop (*) (qvalue a) (qvalue b)) (\<lambda>v.
     Inr (Quantity v (UMul (qunit a) (qunit b))))"

definition qsub :: "ndarray quantity \<Rightarrow> ndarray quantity \<Rightarrow> error + ndarray quantity" where
  "qsub a b = thenR (np_binop (-) (qvalue a) (qvalue b)) (\<lambda>v. Inr (Quantity v (qunit a)))"

definition qadd :: "ndarray quantity \<Rightarrow> ndarray quantity \<Rightarrow> error + ndarray quantity" where
  "qadd a b = thenR (np_binop (+) (qvalue a) (qvalue b)) (\<lambda>v. Inr (Quantity v (qunit a)))"

definition qhalf :: "ndarray quantity \<Rightarrow> ndarray quantity" where
  "qhalf a = Quantity (map (\<lambda>v. v / 2) (qvalue a)) (qunit a)"

definition qfrom1 :: "ndarray quantity \<Rightarrow> ndarray quantity" where
  "qfrom1 a = Quantity (np_from1 (qvalue a)) (qunit a)"

definition qupto_last :: "ndarray quantity \<Rightarrow> ndarray quantity" where
  "qupto_last a = Quantity (np_upto_last (qvalue a)) (qunit a)"

section \<open>\<open>InverseCompton.calc\<close>\<close>

text \<open>
  \<^verbatim>\<open>
  def calc(self,p,x,xhi=None):
      index,ref,ampl,cutoff,beta,TFIR,uFIR,TNIR,uNIR,verbose = p
  \<close>
  Unpacking raises \<open>ValueError\<close> unless \<open>p\<close> has exactly ten entries. The decorator
  \<open>modelCacher1d\<close> belongs to sherpa; the model is of the function body.
\<close>

record params =
  index :: real
  ref :: real
  ampl :: real
  cutoff :: real
  beta :: real
  TFIR :: real
  uFIR :: real
  TNIR :: real
  uNIR :: real
  verbose :: real

fun unpack :: "real list \<Rightarrow> error + params" where
  "unpack [i, r, a, c, b, tf, uf, tn, un, v] =
     Inr \<lparr>index = i, ref = r, ampl = a, cutoff = c, beta = b,
          TFIR = tf, uFIR = uf, TNIR = tn, uNIR = un, verbose = v\<rparr>"
| "unpack _ = Inl ValueError"

text \<open>
  \<^verbatim>\<open>
      if xhi is None:
          outspec = x * u.keV
      else:
          outspec = _mergex(xlo,xhi) * u.keV
  \<close>
  The parameters of \<open>calc\<close> are \<open>self\<close>, \<open>p\<close>, \<open>x\<close> and \<open>xhi\<close>. The name \<open>xlo\<close> is not
  among them, is not assigned in the body, and is not bound at module level (the module
  binds \<open>np\<close>, \<open>u\<close>, \<open>Parameter\<close>, \<open>tinyval\<close>, \<open>ArithmeticModel\<close>, \<open>modelCacher1d\<close>,
  \<open>eV\<close>, \<open>models\<close>, \<open>trapz_loglog\<close>, \<open>_mergex\<close> and \<open>InverseCompton\<close>); reading it
  raises \<open>NameError\<close> before \<open>_mergex\<close> is entered.
\<close>

definition calc_name_xlo :: "error + ndarray" where
  "calc_name_xlo = Inl (NameError ''xlo'')"

definition calc_outspec :: "extern \<Rightarrow> ndarray \<Rightarrow> ndarray option \<Rightarrow> error + ndarray quantity" where
  "calc_outspec lib x xhi =
     (case xhi of
        None \<Rightarrow> thenR (getattr_u lib ''keV'') (\<lambda>keV. Inr (Quantity x keV))
      | Some hi \<Rightarrow>
          thenR calc_name_xlo (\<lambda>xlo.
          thenR (mergex xlo hi False) (\<lambda>edges.
          thenR (getattr_u lib ''keV'') (\<lambda>keV. Inr (Quantity edges keV)))))"

text \<open>
  \<^verbatim>\<open>
      if cutoff == 0.0:
          pdist = models.PowerLaw(ampl * u.Unit('1/eV'), ref * u.TeV, index)
      else:
          pdist = models.ExponentialCutoffPowerLaw(ampl * u.Unit('1/eV'),
                  ref * u.TeV, index, cutoff * u.TeV, beta=beta)
  \<close>
\<close>

definition calc_pdist :: "extern \<Rightarrow> params \<Rightarrow> error + pdist" where
  "calc_pdist lib pr =
     thenR (getattr_u lib ''TeV'') (\<lambda>TeV.
       if cutoff pr = 0
       then construct (new_pdist lib)
              (PowerLaw (Quantity (ampl pr) (UStr ''1/eV'')) (Quantity (ref pr) TeV) (index pr))
       else construct (new_pdist lib)
              (ExponentialCutoffPowerLaw (Quantity (ampl pr) (UStr ''1/eV''))
                 (Quantity (ref pr) TeV) (index pr) (Quantity (cutoff pr) TeV) (Some (beta pr))))"

text \<open>
  \<^verbatim>\<open>
      seedspec=['CMB',]
      if uFIR>0.0:
          seedspec.append(['FIR',TFIR * u.K, uFIR * u.ev/u.cm**3])
      if uNIR>0.0:
          seedspec.append(['NIR',TNIR * u.K, uNIR * u.ev/u.cm**3])
  \<close>
  The attributes are read left to right: \<open>u.K\<close>, then \<open>u.ev\<close>, then \<open>u.cm\<close>.
\<close>

definition calc_field :: "extern \<Rightarrow> string \<Rightarrow> real \<Rightarrow> real \<Rightarrow> error + seed" where
  "calc_field lib name T U =
     thenR (getattr_u lib ''K'') (\<lambda>K.
     thenR (getattr_u lib ''ev'') (\<lambda>ev.
     thenR (getattr_u lib ''cm'') (\<lambda>cm.
       Inr (SeedField name (Quantity T K) (Quantity U (UDiv ev (UPow cm 3)))))))"

definition calc_seedspec :: "extern \<Rightarrow> params \<Rightarrow> error + seed list" where
  "calc_seedspec lib pr =
     thenR (if 0 < uFIR pr
            then thenR (calc_field lib ''FIR'' (TFIR pr) (uFIR pr)) (\<lambda>f. Inr [SeedName ''CMB'', f])
            else Inr [SeedName ''CMB'']) (\<lambda>s1.
       if 0 < uNIR pr
       then thenR (calc_field lib ''NIR'' (TNIR pr) (uNIR pr)) (\<lambda>f. Inr (s1 @ [f]))
       else Inr s1)"

text \<open>
  \<^verbatim>\<open>
      ic = models.InverseCompton(pdist, seed_photon_fields=seedspec,
              log10gmin=5, log10gmax=10, ngamd=100)
      model = ic.flux(outspec).to('1/(s cm2 keV)')
  \<close>
\<close>

definition calc_model :: "extern \<Rightarrow> pdist \<Rightarrow> seed list \<Rightarrow> ndarray quantity \<Rightarrow> error + ndarray quantity" where
  "calc_model lib pd seedspec outspec =
     thenR (construct (new_IC lib)
              \<lparr>particle_distribution = pd, seed_photon_fields = seedspec,
               ic_kwargs = [(''log10gmin'', 5), (''log10gmax'', 10), (''ngamd'', 100)]\<rparr>) (\<lambda>ic.
     thenR (IC_flux lib ic (Energies outspec) None) (\<lambda>f.
       to lib f (UStr ''1/(s cm2 keV)'')))"

text \<open>
  \<^verbatim>\<open>
      # Do a trapz integration to obtain the photons per bin
      # TODO: implement in utils as in trapz_loglog
      if xhi is None:
          photons = (outspec * model).to('1/(s cm2)').value
      else:
          photons = ((outspec[1:]-outspec[:-1]) *
                     ((model[1:]+model[:-1])/2.)).to('1/(s cm2)').value
  \<close>
\<close>

definition photons_points :: "extern \<Rightarrow> ndarray quantity \<Rightarrow> ndarray quantity \<Rightarrow> error + ndarray" where
  "photons_points lib outspec model =
     thenR (qmul outspec model) (\<lambda>q.
     thenR (to lib q (UStr ''1/(s cm2)'')) (\<lambda>r. Inr (qvalue r)))"

definition photons_bins :: "extern \<Rightarrow> ndarray quantity \<Rightarrow> ndarray quantity \<Rightarrow> error + ndarray" where
  "photons_bins lib outspec model =
     thenR (qsub (qfrom1 outspec) (qupto_last outspec)) (\<lambda>width.
     thenR (qadd (qfrom1 model) (qupto_last model)) (\<lambda>s.
     thenR (qmul width (qhalf s)) (\<lambda>q.
     thenR (to lib q (UStr ''1/(s cm2)'')) (\<lambda>r. Inr (qvalue r)))))"

text \<open>
  \<^verbatim>\<open>
      if verbose:
          print self.thawedpars, trapz_loglog(outspec*model,outspec).to('erg/(s cm2)')
      return photons
  \<close>
  The printed line is not part of the returned value and is not modelled; the calls that
  compute it are, since they may raise.
\<close>

definition calc_verbose :: "extern \<Rightarrow> params \<Rightarrow> ndarray quantity \<Rightarrow> ndarray quantity \<Rightarrow> error + unit" where
  "calc_verbose lib pr outspec model =
     (if verbose pr \<noteq> 0
      then thenR (qmul outspec model) (\<lambda>om.
           thenR (trapz_loglog lib om outspec) (\<lambda>t.
           thenR (unit_scale lib (qunit t) (UStr ''erg/(s cm2)'')) (\<lambda>c. Inr ())))
      else Inr ())"

definition calc :: "extern \<Rightarrow> real list \<Rightarrow> ndarray \<Rightarrow> ndarray option \<Rightarrow> error + ndarray" where
  "calc lib p x xhi =
     thenR (unpack p) (\<lambda>pr.
     thenR (calc_outspec lib x xhi) (\<lambda>outspec.
     thenR (calc_pdist lib pr) (\<lambda>pd.
     thenR (calc_seedspec lib pr) (\<lambda>seedspec.
     thenR (calc_model lib pd seedspec outspec) (\<lambda>model.
     thenR (case xhi of None \<Rightarrow> photons_points lib outspec model
                      | Some hi \<Rightarrow> photons_bins lib outspec model) (\<lambda>photons.
     thenR (calc_verbose lib pr outspec model) (\<lambda>done.
       Inr photons)))))))"

section \<open>\<open>ElectronIC\<close>\<close>

text \<open>
  \<open>np.logspace(start, stop, num)\<close> is ten to the power of \<open>num\<close> evenly spaced exponents
  from \<open>start\<close> to \<open>stop\<close>, both included. \<open>pars[i]\<close> raises \<open>IndexError\<close> past the end.
  \<open>data['flux']\<close> raises \<open>KeyError\<close> when the table has no such column.
\<close>

definition np_linspace :: "real \<Rightarrow> real \<Rightarrow> nat \<Rightarrow> ndarray" where
  "np_linspace a b n =
     (if n = 1 then [a] else map (\<lambda>i. a + real i * ((b - a) / real (n - 1))) [0..<n])"

definition np_logspace :: "real \<Rightarrow> real \<Rightarrow> nat \<Rightarrow> ndarray" where
  "np_logspace a b n = map (\<lambda>y. 10 powr y) (np_linspace a b n)"

definition item :: "real list \<Rightarrow> nat \<Rightarrow> error + real" where
  "item xs i = (if i < length xs then Inr (xs ! i) else Inl IndexError)"

definition column :: "table \<Rightarrow> string \<Rightarrow> error + ndarray quantity" where
  "column data name = (case map_of data name of None \<Rightarrow> Inl (KeyError name) | Some c \<Rightarrow> Inr c)"

text \<open>
  \<open>10**y\<close> on a Python float \<open>y\<close> raises \<open>OverflowError\<close> when the power does not fit a
  double, whose largest finite value is \<open>(2\<^sup>5\<^sup>3 - 1) 2\<^sup>9\<^sup>7\<^sup>1\<close>, about \<open>1.8 10\<^sup>3\<^sup>0\<^sup>8\<close>; a power
  too small for a double is zero in Python and is kept exact here. (On a numpy \<open>float64\<close>
  the power overflows to infinity with a warning instead; the reals have no infinity, and
  the model follows the Python float.)
\<close>

definition float_max :: real where
  "float_max = (2 ^ 53 - 1) * 2 ^ 971"

definition pow10 :: "real \<Rightarrow> error + real" where
  "pow10 y = (if float_max < 10 powr y then Inl OverflowError else Inr (10 powr y))"

text \<open>
  \<^verbatim>\<open>
  def ElectronIC(pars,data):
      We = 10**pars[0] * u.erg
      alpha = pars[1]
      e_cutoff = (10**pars[2])*u.TeV
  \<close>
  In each product the power is computed before the unit is looked up.
\<close>

definition ElectronIC_pars :: "extern \<Rightarrow> real list \<Rightarrow> error + (real quantity \<times> real \<times> real quantity)" where
  "ElectronIC_pars lib pars =
     thenR (item pars 0) (\<lambda>p0.
     thenR (pow10 p0) (\<lambda>w.
     thenR (getattr_u lib ''erg'') (\<lambda>erg.
     thenR (item pars 1) (\<lambda>alpha.
     thenR (item pars 2) (\<lambda>p2.
     thenR (pow10 p2) (\<lambda>c.
     thenR (getattr_u lib ''TeV'') (\<lambda>TeV.
       Inr (Quantity w erg, alpha, Quantity c TeV))))))))"

text \<open>
  \<^verbatim>\<open>
      ECPL = ExponentialCutoffPowerLaw(1/u.eV,10.*u.TeV, alpha, e_cutoff)
      IC = InverseCompton(ECPL,seed_photon_fields=['CMB'])
      IC.set_We(We,Eemin=1*u.TeV)
  \<close>
  \<open>IC\<close> holds the object bound to \<open>ECPL\<close>, not a copy: after \<open>set_We\<close> both names see the
  rescaled distribution. The result is the pair of the two objects after the call.
\<close>

definition ElectronIC_objects :: "extern \<Rightarrow> real quantity \<Rightarrow> real \<Rightarrow> real quantity \<Rightarrow> error + (pdist \<times> ic_model)" where
  "ElectronIC_objects lib We alpha e_cutoff =
     thenR (getattr_u lib ''eV'') (\<lambda>eV.
     thenR (getattr_u lib ''TeV'') (\<lambda>TeV.
     thenR (construct (new_pdist lib)
              (ExponentialCutoffPowerLaw (Quantity 1 (UInv eV)) (Quantity 10 TeV) alpha e_cutoff None)) (\<lambda>ECPL.
     thenR (construct (new_IC lib)
              \<lparr>particle_distribution = ECPL, seed_photon_fields = [SeedName ''CMB''],
               ic_kwargs = []\<rparr>) (\<lambda>IC.
     thenR (IC_set_We lib IC We (Quantity 1 TeV)) (\<lambda>ECPL'.
       Inr (ECPL', IC\<lparr>particle_distribution := ECPL'\<rparr>))))))"

text \<open>
  \<^verbatim>\<open>
      model = IC.flux(data,distance=2.0*u.kpc).to(data['flux'].unit)
      elec_energy = np.logspace(11,15,100) * u.eV
      nelec = ECPL(elec_energy)
      return model, (elec_energy,nelec)
  \<close>
\<close>

definition ElectronIC :: "extern \<Rightarrow> real list \<Rightarrow> table \<Rightarrow>
    error + (ndarray quantity \<times> (ndarray quantity \<times> ndarray quantity))" where
  "ElectronIC lib pars data =
     thenR (ElectronIC_pars lib pars) (\<lambda>(We, alpha, e_cutoff).
     thenR (ElectronIC_objects lib We alpha e_cutoff) (\<lambda>(ECPL, IC).
     thenR (getattr_u lib ''kpc'') (\<lambda>kpc.
     thenR (IC_flux lib IC (DataTable data) (Some (Quantity 2 kpc))) (\<lambda>f.
     thenR (column data ''flux'') (\<lambda>fluxcol.
     thenR (to lib f (qunit fluxcol)) (\<lambda>model.
     thenR (getattr_u lib ''eV'') (\<lambda>eV.
       let elec_energy = Quantity (np_logspace 11 15 100) eV in
       thenR (pdist_eval lib ECPL elec_energy) (\<lambda>nelec.
         Inr (model, (elec_energy, nelec))))))))))"

section \<open>Integration in log-log space\<close>

text \<open>
  The specification describes the integration over a bin as trapezoidal integration in
  log-log space: between the two ends \<open>(x1, y1)\<close> and \<open>(x2, y2)\<close> of a bin the flux is taken
  to be the power law through both points, which is a straight line in log-log space, and
  that power law is integrated exactly. With \<open>b\<close> the slope of the line, the integral is
  \<open>y1 (x2 (x2/x1)\<^sup>b - x1) / (b + 1)\<close>, and \<open>x1 y1 ln (x2/x1)\<close> when \<open>b = -1\<close>. This
  definition follows the specification's words, for comparison with \<open>photons_bins\<close>.
\<close>

definition spec_loglog_trapezoid :: "real \<Rightarrow> real \<Rightarrow> real \<Rightarrow> real \<Rightarrow> real" where
  "spec_loglog_trapezoid x1 y1 x2 y2 =
     (let b = ln (y2 / y1) / ln (x2 / x1) in
      if b = - 1 then x1 * y1 * ln (x2 / x1)
      else y1 * (x2 * (x2 / x1) powr b - x1) / (b + 1))"

section \<open>A concrete library\<close>

text \<open>
  \<open>astropy_names\<close> lists the attributes of \<open>astropy.units\<close> that the two files read and
  that astropy defines. Unit names are case-sensitive: the electronvolt is \<open>eV\<close> (so
  written in \<open>ElectronIC\<close> and in the unit strings of \<open>sherpamod.py\<close>), and there is no
  attribute \<open>ev\<close>.

  \<open>sample_extern\<close> is a small instance of the library interface on which the model can be
  run: every unit converts with factor one, constructors accept their arguments, the flux
  at energy \<open>E\<close> is \<open>E\<^sup>2\<close> (one value per energy of the \<open>energy\<close> column for a data table),
  \<open>set_We\<close> rescales the amplitude to one, and a particle distribution evaluates to one
  everywhere.
\<close>

definition astropy_names :: "string list" where
  "astropy_names = [''keV'', ''TeV'', ''eV'', ''K'', ''cm'', ''erg'', ''kpc'']"

definition sample_flux :: "ic_model \<Rightarrow> flux_arg \<Rightarrow> real quantity option \<Rightarrow> error + ndarray quantity" where
  "sample_flux ic arg distance =
     (case arg of
        Energies q \<Rightarrow> Inr (Quantity (map (\<lambda>E. E * E) (qvalue q)) (UStr ''1/(s cm2 eV)''))
      | DataTable t \<Rightarrow>
          (case map_of t ''energy'' of
             None \<Rightarrow> Inl (KeyError ''energy'')
           | Some q \<Rightarrow> Inr (Quantity (map (\<lambda>E. E * E) (qvalue q)) (UStr ''1/(s cm2 eV)''))))"

fun sample_set_We :: "ic_model \<Rightarrow> real quantity \<Rightarrow> real quantity \<Rightarrow> error + pdist" where
  "sample_set_We ic We Eemin =
     (case particle_distribution ic of
        PowerLaw a e0 al \<Rightarrow> Inr (PowerLaw (Quantity 1 (qunit a)) e0 al)
      | ExponentialCutoffPowerLaw a e0 al ec b \<Rightarrow>
          Inr (ExponentialCutoffPowerLaw (Quantity 1 (qunit a)) e0 al ec b))"

definition sample_extern :: extern where
  "sample_extern =
     \<lparr>unit_names = astropy_names,
      unit_scale = (\<lambda>a b. Inr 1),
      new_pdist = (\<lambda>pd. None),
      new_IC = (\<lambda>ic. None),
      IC_flux = sample_flux,
      IC_set_We = sample_set_We,
      pdist_eval = (\<lambda>pd q. Inr (Quantity (map (\<lambda>E. 1) (qvalue q)) (UStr ''1/eV''))),
      trapz_loglog = (\<lambda>y q. Inr (Quantity 0 (UMul (qunit y) (qunit q))))\<rparr>"

section \<open>Basic facts\<close>

lemma thenR_Inr [simp]: "thenR (Inr v) k = k v"
  by (simp add: thenR_def)

lemma thenR_Inl [simp]: "thenR (Inl e) k = Inl e"
  by (simp add: thenR_def)

lemma thenR_eq_Inr: "thenR m k = Inr r \<longleftrightarrow> (\<exists>v. m = Inr v \<and> k v = Inr r)"
  by (cases m) simp_all

lemma thenR_eq_Inl: "thenR m k = Inl e \<longleftrightarrow> m = Inl e \<or> (\<exists>v. m = Inr v \<and> k v = Inl e)"
  by (cases m) simp_all

lemma getattr_u_defined: "n \<in> set (unit_names lib) \<Longrightarrow> getattr_u lib n = Inr (UName n)"
  by (simp add: getattr_u_def)

lemma getattr_u_undefined: "n \<notin> set (unit_names lib) \<Longrightarrow> getattr_u lib n = Inl (AttributeError n)"
  by (simp add: getattr_u_def)

lemma getattr_u_Inr: "getattr_u lib n = Inr v \<longleftrightarrow> n \<in> set (unit_names lib) \<and> v = UName n"
  by (auto simp: getattr_u_def)

lemma construct_Inr: "construct chk obj = Inr v \<longleftrightarrow> chk obj = None \<and> v = obj"
  by (auto simp: construct_def split: option.splits)

lemma construct_Inl: "construct chk obj = Inl e \<longleftrightarrow> chk obj = Some e"
  by (auto simp: construct_def split: option.splits)

lemma np_binop_same: "length xs = length ys \<Longrightarrow> np_binop f xs ys = Inr (map2 f xs ys)"
  by (simp add: np_binop_def)

lemma to_Inr: "to lib q t = Inr r \<longleftrightarrow>
    (\<exists>c. unit_scale lib (qunit q) t = Inr c \<and> r = Quantity (map (\<lambda>v. v * c) (qvalue q)) t)"
  by (auto simp: to_def thenR_eq_Inr)

lemma to_Inl: "to lib q t = Inl e \<longleftrightarrow> unit_scale lib (qunit q) t = Inl e"
  by (auto simp: to_def thenR_eq_Inl)

lemma unpack_Inr:
  "unpack p = Inr pr \<longleftrightarrow>
     length p = 10 \<and>
     pr = \<lparr>index = p ! 0, ref = p ! 1, ampl = p ! 2, cutoff = p ! 3, beta = p ! 4,
           TFIR = p ! 5, uFIR = p ! 6, TNIR = p ! 7, uNIR = p ! 8, verbose = p ! 9\<rparr>"
proof
  assume "unpack p = Inr pr"
  then show "length p = 10 \<and>
     pr = \<lparr>index = p ! 0, ref = p ! 1, ampl = p ! 2, cutoff = p ! 3, beta = p ! 4,
           TFIR = p ! 5, uFIR = p ! 6, TNIR = p ! 7, uNIR = p ! 8, verbose = p ! 9\<rparr>"
    by (rule unpack.elims) auto
next
  assume a: "length p = 10 \<and>
     pr = \<lparr>index = p ! 0, ref = p ! 1, ampl = p ! 2, cutoff = p ! 3, beta = p ! 4,
           TFIR = p ! 5, uFIR = p ! 6, TNIR = p ! 7, uNIR = p ! 8, verbose = p ! 9\<rparr>"
  then obtain i r a c b tf uf tn un v where p: "p = [i, r, a, c, b, tf, uf, tn, un, v]"
    by (auto simp: length_Suc_conv eval_nat_numeral)
  show "unpack p = Inr pr" using a unfolding p by simp
qed

lemma unpack_length: "length p \<noteq> 10 \<Longrightarrow> unpack p = Inl ValueError"
  by (rule unpack.cases [of p]) auto

lemma unpack_ok:
  "length p = 10 \<Longrightarrow>
     unpack p = Inr \<lparr>index = p ! 0, ref = p ! 1, ampl = p ! 2, cutoff = p ! 3, beta = p ! 4,
           TFIR = p ! 5, uFIR = p ! 6, TNIR = p ! 7, uNIR = p ! 8, verbose = p ! 9\<rparr>"
  by (simp add: unpack_Inr)

lemma item_Inr: "item xs i = Inr v \<longleftrightarrow> i < length xs \<and> v = xs ! i"
  by (auto simp: item_def)

lemma pow10_Inr: "pow10 y = Inr v \<longleftrightarrow> 10 powr y \<le> float_max \<and> v = 10 powr y"
  by (auto simp: pow10_def)

lemma pow10_Inl: "pow10 y = Inl e \<longleftrightarrow> float_max < 10 powr y \<and> e = OverflowError"
  by (auto simp: pow10_def)

lemma float_max_ge_10: "10 \<le> float_max"
  by (simp add: float_max_def)

lemma ElectronIC_pars_Inr:
  "ElectronIC_pars lib pars = Inr r \<longleftrightarrow>
     2 < length pars \<and> ''erg'' \<in> set (unit_names lib) \<and> ''TeV'' \<in> set (unit_names lib) \<and>
     10 powr (pars ! 0) \<le> float_max \<and> 10 powr (pars ! 2) \<le> float_max \<and>
     r = (Quantity (10 powr (pars ! 0)) (UName ''erg''), pars ! 1,
          Quantity (10 powr (pars ! 2)) (UName ''TeV''))"
  by (auto simp: ElectronIC_pars_def thenR_eq_Inr item_Inr getattr_u_Inr pow10_Inr)

lemma ElectronIC_objects_Inr:
  "ElectronIC_objects lib We alpha ec = Inr (ECPL, IC) \<longleftrightarrow>
     ''eV'' \<in> set (unit_names lib) \<and> ''TeV'' \<in> set (unit_names lib) \<and>
     new_pdist lib (ExponentialCutoffPowerLaw (Quantity 1 (UInv (UName ''eV'')))
        (Quantity 10 (UName ''TeV'')) alpha ec None) = None \<and>
     new_IC lib \<lparr>particle_distribution = ExponentialCutoffPowerLaw (Quantity 1 (UInv (UName ''eV'')))
        (Quantity 10 (UName ''TeV'')) alpha ec None, seed_photon_fields = [SeedName ''CMB''],
        ic_kwargs = []\<rparr> = None \<and>
     IC_set_We lib \<lparr>particle_distribution = ExponentialCutoffPowerLaw (Quantity 1 (UInv (UName ''eV'')))
        (Quantity 10 (UName ''TeV'')) alpha ec None, seed_photon_fields = [SeedName ''CMB''],
        ic_kwargs = []\<rparr> We (Quantity 1 (UName ''TeV'')) = Inr ECPL \<and>
     IC = \<lparr>particle_distribution = ECPL, seed_photon_fields = [SeedName ''CMB''], ic_kwargs = []\<rparr>"
  by (auto simp: ElectronIC_objects_def thenR_eq_Inr getattr_u_Inr construct_Inr)

section \<open>What \<open>_mergex\<close> returns\<close>

lemma drop_zeros: "drop n (a # replicate n a) = [a]"
  by (induction n) simp_all

lemma mergex_store_plain:
  assumes "xlo < length h" "xhi < length h" "h ! xhi \<noteq> []"
  shows "mergex_store h xlo xhi False =
           Inr (length h, h @ [h ! xlo @ [last (h ! xhi)], h ! xlo])"
  using assms
  by (simp add: mergex_store_def alloc_def Let_def np_zeros_def np_set_upto_def np_last_def
        np_set_last_def nth_append list_update_append drop_zeros)

lemma mergex_store_mid:
  assumes "xlo < length h" "xhi < length h" "h ! xhi \<noteq> []"
    and "length (h ! xlo) = length (h ! xhi)"
  shows "mergex_store h xlo xhi True =
           Inr (length h + 4,
                h @ [h ! xlo @ [last (h ! xhi)], h ! xlo,
                     map2 (+) (h ! xlo) (h ! xhi),
                     map (\<lambda>v. v / 2) (map2 (+) (h ! xlo) (h ! xhi)),
                     sort ((h ! xlo @ [last (h ! xhi)]) @
                            map (\<lambda>v. v / 2) (map2 (+) (h ! xlo) (h ! xhi)))])"
  using assms
  by (simp add: mergex_store_def mergex_midpoints_def alloc_def Let_def np_zeros_def np_set_upto_def np_last_def
        np_set_last_def np_binop_def nth_append list_update_append drop_zeros)

lemma mergex_plain: "xhi \<noteq> [] \<Longrightarrow> mergex xlo xhi False = Inr (xlo @ [last xhi])"
  by (simp add: mergex_def mergex_store_plain nth_append)

lemma mergex_empty: "mergex xlo [] m = Inl IndexError"
  by (simp add: mergex_def mergex_store_def alloc_def Let_def np_zeros_def np_set_upto_def np_last_def
        np_set_last_def nth_append list_update_append)

lemma mergex_mid:
  assumes "length xlo = length xhi" "xhi \<noteq> []"
  shows "mergex xlo xhi True =
           Inr (sort ((xlo @ [last xhi]) @ map2 (\<lambda>a b. (a + b) / 2) xlo xhi))"
  using assms by (simp add: mergex_def mergex_store_mid nth_append comp_def case_prod_unfold)

lemma contiguous_edges:
  assumes len: "length xlo = N" "length xhi = N" "1 \<le> N"
    and cont: "\<forall>n. 1 \<le> n \<and> n < N \<longrightarrow> xlo ! n = xhi ! (n - 1)"
  shows "xlo @ [last xhi] = hd xlo # (xhi :: real list)"
proof (rule nth_equalityI)
  show "length (xlo @ [last xhi]) = length (hd xlo # xhi)" using len by simp
next
  fix i assume "i < length (xlo @ [last xhi])"
  then have i: "i \<le> N" using len by simp
  have ne: "xlo \<noteq> []" "xhi \<noteq> []" using len by auto
  show "(xlo @ [last xhi]) ! i = (hd xlo # xhi) ! i"
  proof (cases "i = 0")
    case True
    then show ?thesis using ne len by (simp add: nth_append hd_conv_nth)
  next
    case False
    show ?thesis
    proof (cases "i = N")
      case True
      then show ?thesis using ne len False by (simp add: nth_append last_conv_nth nth_Cons')
    next
      case n: False
      then have "1 \<le> i \<and> i < N" using False i by simp
      then show ?thesis using cont len by (simp add: nth_append nth_Cons')
    qed
  qed
qed

text \<open>
  Claim C5. For arrays \<open>xlo\<close> and \<open>xhi\<close> of the same size \<open>N \<ge> 1\<close>, \<open>_mergex\<close> without
  midpoints returns an array of length \<open>N + 1\<close> whose first \<open>N\<close> entries are \<open>xlo\<close> and whose
  last entry is \<open>xhi[N-1]\<close>. If the bins are contiguous (\<open>xlo[n] = xhi[n-1]\<close> for
  \<open>1 \<le> n < N\<close>) the entries of the result are exactly the bin boundaries, that is the
  entries of \<open>xlo\<close> and \<open>xhi\<close>. The result is a newly allocated array, and every array that
  was in the store before the call, \<open>xlo\<close> and \<open>xhi\<close> among them, is unchanged.
\<close>

theorem mergex_store_boundaries:
  assumes refs: "xlo < length h" "xhi < length h"
    and len: "length (h ! xlo) = N" "length (h ! xhi) = N" "1 \<le> N"
  shows "\<exists>r h'. mergex_store h xlo xhi False = Inr (r, h') \<and>
           length (h' ! r) = N + 1 \<and>
           take N (h' ! r) = h ! xlo \<and>
           h' ! r ! N = h ! xhi ! (N - 1) \<and>
           ((\<forall>n. 1 \<le> n \<and> n < N \<longrightarrow> h ! xlo ! n = h ! xhi ! (n - 1)) \<longrightarrow>
              set (h' ! r) = set (h ! xlo) \<union> set (h ! xhi)) \<and>
           length h \<le> r \<and> (\<forall>a < length h. h' ! a = h ! a)"
proof -
  let ?lo = "h ! xlo" and ?hi = "h ! xhi"
  let ?h' = "h @ [?lo @ [last ?hi], ?lo]"
  have ne: "?hi \<noteq> []" using len by auto
  have run: "mergex_store h xlo xhi False = Inr (length h, ?h')"
    using refs ne by (rule mergex_store_plain)
  have res: "?h' ! length h = ?lo @ [last ?hi]" by (simp add: nth_append)
  have l: "length (?h' ! length h) = N + 1" using len by (simp add: res)
  have t: "take N (?h' ! length h) = ?lo" using len by (simp add: res)
  have e: "?h' ! length h ! N = ?hi ! (N - 1)"
    using len ne by (simp add: res nth_append last_conv_nth)
  have s: "set (?h' ! length h) = set ?lo \<union> set ?hi"
    if cont: "\<forall>n. 1 \<le> n \<and> n < N \<longrightarrow> ?lo ! n = ?hi ! (n - 1)"
  proof -
    have "?lo @ [last ?hi] = hd ?lo # ?hi" using len cont by (rule contiguous_edges)
    then have "set (?lo @ [last ?hi]) = set (hd ?lo # ?hi)" by simp
    then have eq: "set ?lo \<union> {last ?hi} = insert (hd ?lo) (set ?hi)" by simp
    have "last ?hi \<in> set ?hi" using ne by simp
    then have "set ?lo \<union> {last ?hi} \<subseteq> set ?lo \<union> set ?hi" by auto
    moreover have "set ?hi \<subseteq> set ?lo \<union> {last ?hi}" using eq by auto
    ultimately have "set ?lo \<union> {last ?hi} = set ?lo \<union> set ?hi" by auto
    then show ?thesis unfolding res by simp
  qed
  have u: "\<forall>a < length h. ?h' ! a = h ! a" by (simp add: nth_append)
  show ?thesis using run l t e s u by blast
qed

theorem mergex_store_boundaries_witness:
  "\<exists>r h'. mergex_store [[1, 2, 3], [2, 3, 4]] 0 1 False = Inr (r, h') \<and>
     length (h' ! r) = 3 + 1 \<and>
     take 3 (h' ! r) = [1, 2, 3] \<and>
     h' ! r ! 3 = 4 \<and>
     set (h' ! r) = {1, 2, 3, 4} \<and>
     2 \<le> r \<and> h' ! 0 = [1, 2, 3] \<and> h' ! 1 = [2, 3, 4]"
proof -
  let ?h = "[[1, 2, 3], [2, 3, 4 :: real]]"
  have cont: "\<forall>n. 1 \<le> n \<and> n < 3 \<longrightarrow> ?h ! 0 ! n = ?h ! 1 ! (n - 1)"
  proof (intro allI impI)
    fix n :: nat assume "1 \<le> n \<and> n < 3"
    then have "n = 1 \<or> n = 2" by arith
    then show "?h ! 0 ! n = ?h ! 1 ! (n - 1)" by auto
  qed
  have "0 < length ?h" "1 < length ?h" "length (?h ! 0) = 3" "length (?h ! 1) = 3" "(1::nat) \<le> 3"
    by simp_all
  from mergex_store_boundaries [OF this] obtain r h'
    where run: "mergex_store ?h 0 1 False = Inr (r, h')"
      and l: "length (h' ! r) = 3 + 1" and t: "take 3 (h' ! r) = ?h ! 0"
      and e: "h' ! r ! 3 = ?h ! 1 ! (3 - 1)"
      and s: "(\<forall>n. 1 \<le> n \<and> n < 3 \<longrightarrow> ?h ! 0 ! n = ?h ! 1 ! (n - 1)) \<longrightarrow>
                set (h' ! r) = set (?h ! 0) \<union> set (?h ! 1)"
      and f: "length ?h \<le> r"
      and u: "\<forall>a < length ?h. h' ! a = ?h ! a"
    by blast
  have "set (h' ! r) = set (?h ! 0) \<union> set (?h ! 1)" using s cont by blast
  then have "set (h' ! r) = {1, 2, 3, 4}" by auto
  moreover have "h' ! 0 = [1, 2, 3]" "h' ! 1 = [2, 3, 4]" using u by auto
  ultimately show ?thesis using run l t e f by auto
qed

text \<open>
  Claim C10. For arrays \<open>xlo\<close> and \<open>xhi\<close> of the same size \<open>N \<ge> 1\<close> with contiguous bins
  (\<open>xlo[n] = xhi[n-1]\<close> for \<open>1 \<le> n < N\<close>) and \<open>xlo[n] \<le> xhi[n]\<close> for all \<open>n\<close>, \<open>_mergex\<close>
  with midpoints returns a nondecreasing array of length \<open>2N + 1\<close> that holds exactly the
  \<open>N + 1\<close> bin boundaries \<open>xlo[0], xhi[0], ..., xhi[N-1]\<close> and the \<open>N\<close> midpoints
  \<open>(xlo[n] + xhi[n]) / 2\<close>, each as often as it occurs among them.
\<close>

theorem mergex_midpoints_sorted:
  assumes len: "length xlo = N" "length xhi = N" "1 \<le> N"
    and cont: "\<forall>n. 1 \<le> n \<and> n < N \<longrightarrow> xlo ! n = xhi ! (n - 1)"
    and ord: "\<forall>n < N. xlo ! n \<le> xhi ! n"
  shows "\<exists>r. mergex xlo xhi True = Inr r \<and> sorted r \<and> length r = 2 * N + 1 \<and>
           mset r = mset (hd xlo # xhi) + mset (map2 (\<lambda>a b. (a + b) / 2) xlo xhi)"
proof -
  have ne: "xhi \<noteq> []" using len by auto
  let ?r = "sort ((xlo @ [last xhi]) @ map2 (\<lambda>a b. (a + b) / 2) xlo xhi)"
  have run: "mergex xlo xhi True = Inr ?r" using len ne by (simp add: mergex_mid)
  have edges: "xlo @ [last xhi] = hd xlo # xhi" using len cont by (rule contiguous_edges)
  have "length ?r = 2 * N + 1" using len by simp
  moreover have "mset ?r = mset (hd xlo # xhi) + mset (map2 (\<lambda>a b. (a + b) / 2) xlo xhi)"
    by (simp only: mset_sort mset_append edges)
  ultimately show ?thesis using run by (metis sorted_sort)
qed

theorem mergex_midpoints_sorted_witness:
  "\<exists>r. mergex [1, 2, 3] [2, 3, 4] True = Inr r \<and> sorted r \<and> length r = 2 * 3 + 1 \<and>
     mset r = mset [1, 2, 3, 4] + mset [3 / 2, 5 / 2, 7 / 2]"
proof -
  have cont: "\<forall>n. 1 \<le> n \<and> n < 3 \<longrightarrow> [1, 2, 3 :: real] ! n = [2, 3, 4] ! (n - 1)"
  proof (intro allI impI)
    fix n :: nat assume "1 \<le> n \<and> n < 3"
    then have "n = 1 \<or> n = 2" by arith
    then show "[1, 2, 3 :: real] ! n = [2, 3, 4] ! (n - 1)" by auto
  qed
  have ord: "\<forall>n < 3. [1, 2, 3 :: real] ! n \<le> [2, 3, 4] ! n"
  proof (intro allI impI)
    fix n :: nat assume "n < 3"
    then have "n = 0 \<or> n = 1 \<or> n = 2" by arith
    then show "[1, 2, 3 :: real] ! n \<le> [2, 3, 4] ! n" by auto
  qed
  have "\<exists>r. mergex [1, 2, 3] [2, 3, 4] True = Inr r \<and> sorted r \<and> length r = 2 * 3 + 1 \<and>
     mset r = mset (hd [1, 2, 3] # [2, 3, 4]) + mset (map2 (\<lambda>a b. (a + b) / 2) [1, 2, 3] [2, 3, 4])"
    using cont ord by (intro mergex_midpoints_sorted) simp_all
  then show ?thesis by simp
qed

section \<open>The binned branch of \<open>calc\<close>\<close>

text \<open>
  Claim C2. Given a parameter vector and lower and upper bin edges, \<open>calc\<close> is to merge the
  edges into one boundary array, evaluate the flux there and return one value per bin.
  The code does not get that far: for every vector of ten parameters and every pair of
  arrays, the call ends with \<open>NameError\<close> for the unbound name \<open>xlo\<close>.
\<close>

theorem calc_bins_NameError:
  "calc lib [i, r, a, c, b, tf, uf, tn, un, v] x (Some xhi) = Inl (NameError ''xlo'')"
  by (simp add: calc_def calc_outspec_def calc_name_xlo_def)

lemma spec_loglog_value: "spec_loglog_trapezoid 1 1 2 4 = 7 / 3"
proof -
  have "ln (4::real) = ln (2^2)" by simp
  also have "\<dots> = 2 * ln 2" by (simp only: ln_realpow)
  finally have l4: "ln (4::real) = 2 * ln 2" .
  have "(2::real) powr 2 = 4" by simp
  then show ?thesis by (simp add: spec_loglog_trapezoid_def l4 Let_def)
qed

lemma photons_bins_run:
  assumes len: "length e = N + 1" "length f = N + 1"
    and conv: "unit_scale lib (UMul ue uf) (UStr ''1/(s cm2)'') = Inr c"
  shows "photons_bins lib (Quantity e ue) (Quantity f uf) =
           Inr (map (\<lambda>i. (e ! (i + 1) - e ! i) * ((f ! (i + 1) + f ! i) / 2) * c) [0..<N])"
proof -
  let ?w = "map2 (-) (drop 1 e) (take N e)"
  let ?s = "map2 (+) (drop 1 f) (take N f)"
  have w: "np_binop (-) (drop 1 e) (take N e) = Inr ?w" using len by (simp add: np_binop_def)
  have s: "np_binop (+) (drop 1 f) (take N f) = Inr ?s" using len by (simp add: np_binop_def)
  have m: "np_binop (*) ?w (map (\<lambda>v. v / 2) ?s) = Inr (map2 (*) ?w (map (\<lambda>v. v / 2) ?s))"
    using len by (simp add: np_binop_def)
  have run: "photons_bins lib (Quantity e ue) (Quantity f uf) =
               Inr (map (\<lambda>v. v * c) (map2 (*) ?w (map (\<lambda>v. v / 2) ?s)))"
    using len conv w s m
    by (simp add: photons_bins_def qsub_def qadd_def qmul_def qhalf_def qfrom1_def qupto_last_def
          np_from1_def np_upto_last_def to_def)
  have "map (\<lambda>v. v * c) (map2 (*) ?w (map (\<lambda>v. v / 2) ?s)) =
          map (\<lambda>i. (e ! (i + 1) - e ! i) * ((f ! (i + 1) + f ! i) / 2) * c) [0..<N]"
    using len by (intro nth_equalityI) (simp_all add: nth_append)
  then show ?thesis using run by simp
qed

text \<open>
  Claim C1, as amended. The integration step of the binned branch is the plain trapezoid
  rule, not the trapezoid rule in log-log space: applied to \<open>N + 1\<close> boundaries \<open>e\<close> and the
  flux \<open>f\<close> at them, it returns \<open>N\<close> values, the \<open>i\<close>-th being the bin width
  \<open>e[i+1] - e[i]\<close> times the mean flux \<open>(f[i+1] + f[i]) / 2\<close> of the two ends, times the
  factor \<open>c\<close> that converts the product of the two units to \<open>1/(s cm2)\<close>.
\<close>

theorem photons_bins_trapezoid:
  assumes "length e = N + 1" "length f = N + 1"
    and "unit_scale lib (UMul ue uf) (UStr ''1/(s cm2)'') = Inr c"
  shows "\<exists>photons. photons_bins lib (Quantity e ue) (Quantity f uf) = Inr photons \<and>
           length photons = N \<and>
           (\<forall>i < N. photons ! i = (e ! (i + 1) - e ! i) * ((f ! (i + 1) + f ! i) / 2) * c)"
  using photons_bins_run [OF assms] by simp

theorem photons_bins_trapezoid_witness:
  "\<exists>photons. photons_bins sample_extern (Quantity [1, 2] (UName ''keV''))
                (Quantity [1, 4] (UStr ''1/(s cm2 keV)'')) = Inr photons \<and>
             length photons = 1 \<and>
             (\<forall>i < 1. photons ! i = ([1, 2] ! (i + 1) - [1, 2] ! i) * (([1, 4] ! (i + 1) + [1, 4] ! i) / 2) * 1)"
  using photons_bins_trapezoid [of "[1, 2]" 1 "[1, 4]" sample_extern "UName ''keV''" "UStr ''1/(s cm2 keV)''" 1]
  by (simp add: sample_extern_def)

text \<open>
  Claim C1, as stated, fails. With boundaries \<open>1\<close> and \<open>2\<close> and flux \<open>1\<close> and \<open>4\<close> at them
  (the flux \<open>E\<^sup>2\<close> of \<open>sample_extern\<close>), the trapezoid in log-log space is \<open>7/3\<close>; the
  integration step of the code yields \<open>5/2\<close>, and the call itself yields no array at all.
\<close>

theorem calc_bins_not_loglog:
  "calc sample_extern [2, 20, 1, 0, 1, 70, 0, 3800, 0, 0] [1] (Some [2])
      \<noteq> Inr [spec_loglog_trapezoid 1 1 2 4] \<and>
   photons_bins sample_extern (Quantity [1, 2] (UName ''keV'')) (Quantity [1, 4] (UStr ''1/(s cm2 keV)''))
      \<noteq> Inr [spec_loglog_trapezoid 1 1 2 4]"
proof -
  have "photons_bins sample_extern (Quantity [1, 2] (UName ''keV''))
          (Quantity [1, 4] (UStr ''1/(s cm2 keV)'')) = Inr [5 / 2]"
    using photons_bins_run [of "[1, 2]" 1 "[1, 4]" sample_extern "UName ''keV''" "UStr ''1/(s cm2 keV)''" 1]
    by (simp add: sample_extern_def)
  then show ?thesis
    by (simp add: spec_loglog_value calc_def calc_outspec_def calc_name_xlo_def)
qed

section \<open>The particle distribution and the seed photon fields of \<open>calc\<close>\<close>

text \<open>
  Claim C3. For every parameter vector \<open>p\<close> that \<open>calc\<close> unpacks, the particle distribution
  it builds is a \<open>PowerLaw\<close> if and only if the cutoff parameter \<open>p[3]\<close> is exactly zero,
  with amplitude \<open>p[2]\<close> in \<open>1/eV\<close>, reference energy \<open>p[1]\<close> in TeV and index \<open>p[0]\<close>; for
  every other cutoff it is an \<open>ExponentialCutoffPowerLaw\<close> with the same three arguments,
  the cutoff \<open>p[3]\<close> in TeV and \<open>beta = p[4]\<close>.
\<close>

theorem calc_pdist_dispatch:
  assumes "unpack p = Inr pr" and "calc_pdist lib pr = Inr pd"
  shows "(is_PowerLaw pd \<longleftrightarrow> p ! 3 = 0) \<and>
         (p ! 3 = 0 \<longrightarrow>
            pd = PowerLaw (Quantity (p ! 2) (UStr ''1/eV'')) (Quantity (p ! 1) (UName ''TeV'')) (p ! 0)) \<and>
         (p ! 3 \<noteq> 0 \<longrightarrow>
            pd = ExponentialCutoffPowerLaw (Quantity (p ! 2) (UStr ''1/eV''))
                   (Quantity (p ! 1) (UName ''TeV'')) (p ! 0)
                   (Quantity (p ! 3) (UName ''TeV'')) (Some (p ! 4)))"
proof -
  from assms(1) have pr: "index pr = p ! 0" "ref pr = p ! 1" "ampl pr = p ! 2"
    "cutoff pr = p ! 3" "beta pr = p ! 4"
    by (simp_all add: unpack_Inr)
  from assms(2) obtain TeV where t: "getattr_u lib ''TeV'' = Inr TeV"
    and c: "(if cutoff pr = 0
       then construct (new_pdist lib)
              (PowerLaw (Quantity (ampl pr) (UStr ''1/eV'')) (Quantity (ref pr) TeV) (index pr))
       else construct (new_pdist lib)
              (ExponentialCutoffPowerLaw (Quantity (ampl pr) (UStr ''1/eV''))
                 (Quantity (ref pr) TeV) (index pr) (Quantity (cutoff pr) TeV) (Some (beta pr)))) = Inr pd"
    unfolding calc_pdist_def thenR_eq_Inr by blast
  from t have TeV: "TeV = UName ''TeV''" by (simp add: getattr_u_Inr)
  show ?thesis
  proof (cases "p ! 3 = 0")
    case True
    with c pr TeV show ?thesis by (simp add: construct_Inr)
  next
    case False
    with c pr TeV show ?thesis by (simp add: construct_Inr)
  qed
qed

theorem calc_pdist_dispatch_witness:
  "is_PowerLaw (PowerLaw (Quantity 1 (UStr ''1/eV'')) (Quantity 20 (UName ''TeV'')) 2) \<and>
   \<not> is_PowerLaw (ExponentialCutoffPowerLaw (Quantity 1 (UStr ''1/eV''))
                   (Quantity 20 (UName ''TeV'')) 2 (Quantity 30 (UName ''TeV'')) (Some 1)) \<and>
   calc_pdist sample_extern \<lparr>index = 2, ref = 20, ampl = 1, cutoff = 0, beta = 1,
           TFIR = 70, uFIR = 0, TNIR = 3800, uNIR = 0, verbose = 0\<rparr> =
     Inr (PowerLaw (Quantity 1 (UStr ''1/eV'')) (Quantity 20 (UName ''TeV'')) 2) \<and>
   calc_pdist sample_extern \<lparr>index = 2, ref = 20, ampl = 1, cutoff = 30, beta = 1,
           TFIR = 70, uFIR = 0, TNIR = 3800, uNIR = 0, verbose = 0\<rparr> =
     Inr (ExponentialCutoffPowerLaw (Quantity 1 (UStr ''1/eV''))
                   (Quantity 20 (UName ''TeV'')) 2 (Quantity 30 (UName ''TeV'')) (Some 1))"
proof -
  let ?p0 = "[2, 20, 1, 0, 1, 70, 0, 3800, 0, 0 :: real]"
  let ?p1 = "[2, 20, 1, 30, 1, 70, 0, 3800, 0, 0 :: real]"
  have r0: "calc_pdist sample_extern \<lparr>index = 2, ref = 20, ampl = 1, cutoff = 0, beta = 1,
           TFIR = 70, uFIR = 0, TNIR = 3800, uNIR = 0, verbose = 0\<rparr> =
     Inr (PowerLaw (Quantity 1 (UStr ''1/eV'')) (Quantity 20 (UName ''TeV'')) 2)"
    by (simp add: calc_pdist_def sample_extern_def astropy_names_def getattr_u_def construct_def)
  have r1: "calc_pdist sample_extern \<lparr>index = 2, ref = 20, ampl = 1, cutoff = 30, beta = 1,
           TFIR = 70, uFIR = 0, TNIR = 3800, uNIR = 0, verbose = 0\<rparr> =
     Inr (ExponentialCutoffPowerLaw (Quantity 1 (UStr ''1/eV''))
                   (Quantity 20 (UName ''TeV'')) 2 (Quantity 30 (UName ''TeV'')) (Some 1))"
    by (simp add: calc_pdist_def sample_extern_def astropy_names_def getattr_u_def construct_def)
  have u0: "unpack ?p0 = Inr \<lparr>index = 2, ref = 20, ampl = 1, cutoff = 0, beta = 1,
           TFIR = 70, uFIR = 0, TNIR = 3800, uNIR = 0, verbose = 0\<rparr>" by simp
  have u1: "unpack ?p1 = Inr \<lparr>index = 2, ref = 20, ampl = 1, cutoff = 30, beta = 1,
           TFIR = 70, uFIR = 0, TNIR = 3800, uNIR = 0, verbose = 0\<rparr>" by simp
  show ?thesis
    using calc_pdist_dispatch [OF u0 r0] calc_pdist_dispatch [OF u1 r1] r0 r1 by simp
qed

lemma calc_seedspec_gated:
  assumes "''K'' \<in> set (unit_names lib)" "''ev'' \<in> set (unit_names lib)" "''cm'' \<in> set (unit_names lib)"
  shows "calc_seedspec lib pr =
     Inr ([SeedName ''CMB''] @
          (if 0 < uFIR pr
           then [SeedField ''FIR'' (Quantity (TFIR pr) (UName ''K''))
                   (Quantity (uFIR pr) (UDiv (UName ''ev'') (UPow (UName ''cm'') 3)))]
           else []) @
          (if 0 < uNIR pr
           then [SeedField ''NIR'' (Quantity (TNIR pr) (UName ''K''))
                   (Quantity (uNIR pr) (UDiv (UName ''ev'') (UPow (UName ''cm'') 3)))]
           else []))"
  using assms by (simp add: calc_seedspec_def calc_field_def getattr_u_defined)

lemma calc_seedspec_no_ev:
  assumes "''K'' \<in> set (unit_names lib)" "''ev'' \<notin> set (unit_names lib)"
    and "0 < uFIR pr \<or> 0 < uNIR pr"
  shows "calc_seedspec lib pr = Inl (AttributeError ''ev'')"
  using assms by (auto simp: calc_seedspec_def calc_field_def getattr_u_defined getattr_u_undefined)

lemma calc_seedspec_CMB:
  assumes "\<not> 0 < uFIR pr" "\<not> 0 < uNIR pr"
  shows "calc_seedspec lib pr = Inr [SeedName ''CMB'']"
  using assms by (simp add: calc_seedspec_def)

text \<open>
  Claim C4. The seed photon fields handed to the scattering model are to hold the FIR field
  exactly when \<open>uFIR > 0\<close> and the NIR field exactly when \<open>uNIR > 0\<close>, next to the CMB.
  With \<open>uFIR = 0.2\<close> the code does not hand over any list: building the FIR entry reads
  \<open>u.ev\<close>, which \<open>astropy.units\<close> does not define, and the call ends with
  \<open>AttributeError\<close>.
\<close>

theorem calc_FIR_AttributeError:
  "calc sample_extern [2, 20, 1, 0, 1, 70, 0.2, 3800, 0, 0] [1] None = Inl (AttributeError ''ev'')"
  by (simp add: calc_def calc_outspec_def calc_pdist_def calc_seedspec_def calc_field_def
        sample_extern_def astropy_names_def getattr_u_def construct_def)

section \<open>The photons \<open>calc\<close> returns\<close>

lemma photons_points_Inr:
  assumes "length (qvalue model) = length x"
  shows "photons_points lib (Quantity x ux) model = Inr photons \<longleftrightarrow>
     (\<exists>c. unit_scale lib (UMul ux (qunit model)) (UStr ''1/(s cm2)'') = Inr c \<and>
          photons = map (\<lambda>i. x ! i * qvalue model ! i * c) [0..<length x])"
proof -
  have m: "np_binop (*) x (qvalue model) = Inr (map2 (*) x (qvalue model))"
    using assms by (simp add: np_binop_def)
  have l: "map (\<lambda>v. v * c) (map2 (*) x (qvalue model)) =
           map (\<lambda>i. x ! i * qvalue model ! i * c) [0..<length x]" for c
    using assms by (intro nth_equalityI) simp_all
  show ?thesis
    using l by (auto simp: photons_points_def qmul_def m thenR_eq_Inr to_Inr)
qed

lemma photons_bins_length:
  assumes "photons_bins lib (Quantity e ue) (Quantity f uf) = Inr photons"
    and "length e = N + 1" "length f = N + 1"
  shows "length photons = N"
proof -
  show ?thesis
  proof (cases "unit_scale lib (UMul ue uf) (UStr ''1/(s cm2)'')")
    case (Inl err)
    have w: "np_binop (-) (drop 1 e) (take N e) = Inr (map2 (-) (drop 1 e) (take N e))"
      using assms by (simp add: np_binop_def)
    have s: "np_binop (+) (drop 1 f) (take N f) = Inr (map2 (+) (drop 1 f) (take N f))"
      using assms by (simp add: np_binop_def)
    have m: "np_binop (*) (map2 (-) (drop 1 e) (take N e)) (map (\<lambda>v. v / 2) (map2 (+) (drop 1 f) (take N f)))
             = Inr (map2 (*) (map2 (-) (drop 1 e) (take N e)) (map (\<lambda>v. v / 2) (map2 (+) (drop 1 f) (take N f))))"
      using assms by (simp add: np_binop_def)
    have "photons_bins lib (Quantity e ue) (Quantity f uf) = Inl err"
      using assms(2,3) Inl w s m
      by (simp add: photons_bins_def qsub_def qadd_def qmul_def qhalf_def qfrom1_def qupto_last_def
          np_from1_def np_upto_last_def to_def)
    with assms(1) show ?thesis by simp
  next
    case (Inr c)
    from photons_bins_run [OF assms(2,3) Inr] assms(1) show ?thesis by auto
  qed
qed

text \<open>
  Without upper bin edges, a call that returns gives one value per energy: if the library's
  flux has one value per energy it is given, the returned array is as long as \<open>x\<close> and its
  \<open>i\<close>-th entry is \<open>x[i]\<close> times the flux at \<open>x[i]\<close> (in \<open>1/(s cm2 keV)\<close>), converted to
  \<open>1/(s cm2)\<close>.
\<close>

lemma calc_points_photons:
  assumes ret: "calc lib p x None = Inr photons"
    and pointwise: "\<forall>ic q d f. IC_flux lib ic (Energies q) d = Inr f \<longrightarrow>
                       length (qvalue f) = length (qvalue q)"
  shows "length photons = length x \<and>
         (\<exists>pr pd seedspec flux c.
            unpack p = Inr pr \<and> calc_pdist lib pr = Inr pd \<and> calc_seedspec lib pr = Inr seedspec \<and>
            calc_model lib pd seedspec (Quantity x (UName ''keV'')) = Inr flux \<and>
            qunit flux = UStr ''1/(s cm2 keV)'' \<and>
            unit_scale lib (UMul (UName ''keV'') (UStr ''1/(s cm2 keV)'')) (UStr ''1/(s cm2)'') = Inr c \<and>
            (\<forall>i < length x. photons ! i = x ! i * qvalue flux ! i * c))"
proof -
  from ret obtain pr outspec pd seedspec model where
    u: "unpack p = Inr pr" and o: "calc_outspec lib x None = Inr outspec"
    and pd: "calc_pdist lib pr = Inr pd" and ss: "calc_seedspec lib pr = Inr seedspec"
    and m: "calc_model lib pd seedspec outspec = Inr model"
    and ph: "photons_points lib outspec model = Inr photons"
    by (auto simp: calc_def thenR_eq_Inr)
  from o have os: "outspec = Quantity x (UName ''keV'')"
    by (auto simp: calc_outspec_def thenR_eq_Inr getattr_u_Inr)
  from m obtain f where f: "IC_flux lib \<lparr>particle_distribution = pd, seed_photon_fields = seedspec,
        ic_kwargs = [(''log10gmin'', 5), (''log10gmax'', 10), (''ngamd'', 100)]\<rparr>
        (Energies outspec) None = Inr f" and t: "to lib f (UStr ''1/(s cm2 keV)'') = Inr model"
    by (auto simp: calc_model_def thenR_eq_Inr construct_Inr)
  from f pointwise have "length (qvalue f) = length x" unfolding os by fastforce
  with t have len: "length (qvalue model) = length x" and un: "qunit model = UStr ''1/(s cm2 keV)''"
    by (auto simp: to_Inr)
  from ph os have "photons_points lib (Quantity x (UName ''keV'')) model = Inr photons" by simp
  then obtain c where c: "unit_scale lib (UMul (UName ''keV'') (qunit model)) (UStr ''1/(s cm2)'') = Inr c"
    and p: "photons = map (\<lambda>i. x ! i * qvalue model ! i * c) [0..<length x]"
    unfolding photons_points_Inr [OF len] by blast
  have "\<forall>i < length x. photons ! i = x ! i * qvalue model ! i * c" using p by simp
  then have "\<exists>pr pd seedspec flux c.
               unpack p = Inr pr \<and> calc_pdist lib pr = Inr pd \<and> calc_seedspec lib pr = Inr seedspec \<and>
               calc_model lib pd seedspec (Quantity x (UName ''keV'')) = Inr flux \<and>
               qunit flux = UStr ''1/(s cm2 keV)'' \<and>
               unit_scale lib (UMul (UName ''keV'') (UStr ''1/(s cm2 keV)'')) (UStr ''1/(s cm2)'') = Inr c \<and>
               (\<forall>i < length x. photons ! i = x ! i * qvalue flux ! i * c)"
    using u pd ss m c un unfolding os by metis
  then show ?thesis using p by simp
qed


section \<open>What \<open>ElectronIC\<close> passes on and returns\<close>

lemma sample_pars: "ElectronIC_pars sample_extern [0, 3, 1] =
    Inr (Quantity 1 (UName ''erg''), 3, Quantity 10 (UName ''TeV''))"
  using float_max_ge_10 by (simp add: ElectronIC_pars_Inr sample_extern_def astropy_names_def)

lemma sample_objects: "ElectronIC_objects sample_extern (Quantity 1 (UName ''erg'')) 3 (Quantity 10 (UName ''TeV'')) =
    Inr (ExponentialCutoffPowerLaw (Quantity 1 (UInv (UName ''eV''))) (Quantity 10 (UName ''TeV'')) 3
           (Quantity 10 (UName ''TeV'')) None,
         \<lparr>particle_distribution =
            ExponentialCutoffPowerLaw (Quantity 1 (UInv (UName ''eV''))) (Quantity 10 (UName ''TeV'')) 3
              (Quantity 10 (UName ''TeV'')) None,
          seed_photon_fields = [SeedName ''CMB''], ic_kwargs = []\<rparr>)"
  by (simp add: ElectronIC_objects_Inr sample_extern_def astropy_names_def)



lemma np_logspace_length: "length (np_logspace a b n) = n"
  by (simp add: np_logspace_def np_linspace_def)

lemma np_logspace_nth:
  assumes "i < n" "1 < n"
  shows "np_logspace a b n ! i = 10 powr (a + real i * ((b - a) / real (n - 1)))"
  using assms by (simp add: np_logspace_def np_linspace_def)

lemma np_logspace_first: "1 < n \<Longrightarrow> np_logspace a b n ! 0 = 10 powr a"
  by (simp add: np_logspace_nth)

lemma np_logspace_last: "1 < n \<Longrightarrow> np_logspace a b n ! (n - 1) = 10 powr b"
  by (simp add: np_logspace_nth)

lemma np_logspace_ratio:
  assumes "i + 1 < n"
  shows "np_logspace a b n ! (i + 1) = np_logspace a b n ! i * 10 powr ((b - a) / real (n - 1))"
proof -
  have "np_logspace a b n ! (i + 1) = 10 powr (a + real (i + 1) * ((b - a) / real (n - 1)))"
    using assms by (intro np_logspace_nth) simp_all
  also have "a + real (i + 1) * ((b - a) / real (n - 1)) =
               (a + real i * ((b - a) / real (n - 1))) + (b - a) / real (n - 1)"
    by (simp add: distrib_right add_divide_distrib)
  also have "10 powr \<dots> = 10 powr (a + real i * ((b - a) / real (n - 1))) * 10 powr ((b - a) / real (n - 1))"
    by (simp only: powr_add)
  also have "10 powr (a + real i * ((b - a) / real (n - 1))) = np_logspace a b n ! i"
    using assms by (intro np_logspace_nth [symmetric]) simp_all
  finally show ?thesis .
qed

lemma elec_energy_grid:
  "length (np_logspace 11 15 100) = 100 \<and>
   np_logspace 11 15 100 ! 0 = 10 ^ 11 \<and>
   np_logspace 11 15 100 ! 99 = 10 ^ 15 \<and>
   (\<forall>i < 99. np_logspace 11 15 100 ! (i + 1) = np_logspace 11 15 100 ! i * 10 powr (4 / 99))"
proof -
  have "np_logspace 11 15 100 ! 0 = 10 powr 11" by (rule np_logspace_first) simp
  then have a: "np_logspace 11 15 100 ! 0 = 10 ^ 11" by simp
  have "np_logspace 11 15 100 ! (100 - 1) = 10 powr 15" by (rule np_logspace_last) simp
  then have b: "np_logspace 11 15 100 ! 99 = 10 ^ 15" by simp
  have c: "np_logspace 11 15 100 ! (i + 1) = np_logspace 11 15 100 ! i * 10 powr (4 / 99)"
    if "i < 99" for i
    using np_logspace_ratio [of i 100 11 15] that by simp
  show ?thesis using a b c by (simp add: np_logspace_length)
qed

text \<open>
  Claim C7. Whenever \<open>ElectronIC\<close> returns, the first component of the pair it returns is
  the flux of the scattering model on the data table (at a distance of two kpc), converted
  to the unit of the table's \<open>flux\<close> column. The second component is a pair: one hundred
  electron energies in eV, from \<open>10\<^sup>1\<^sup>1\<close> to \<open>10\<^sup>1\<^sup>5\<close> with a constant ratio between
  neighbours, and the normalised particle distribution evaluated at these energies.
\<close>

theorem ElectronIC_result:
  assumes "ElectronIC lib pars data = Inr (model, (elec_energy, nelec))"
  shows "\<exists>We alpha e_cutoff ECPL IC f fluxcol.
           ElectronIC_pars lib pars = Inr (We, alpha, e_cutoff) \<and>
           ElectronIC_objects lib We alpha e_cutoff = Inr (ECPL, IC) \<and>
           IC_flux lib IC (DataTable data) (Some (Quantity 2 (UName ''kpc''))) = Inr f \<and>
           column data ''flux'' = Inr fluxcol \<and>
           to lib f (qunit fluxcol) = Inr model \<and>
           qunit model = qunit fluxcol \<and>
           elec_energy = Quantity (np_logspace 11 15 100) (UName ''eV'') \<and>
           length (qvalue elec_energy) = 100 \<and>
           qvalue elec_energy ! 0 = 10 ^ 11 \<and>
           qvalue elec_energy ! 99 = 10 ^ 15 \<and>
           (\<forall>i < 99. qvalue elec_energy ! (i + 1) = qvalue elec_energy ! i * 10 powr (4 / 99)) \<and>
           pdist_eval lib ECPL elec_energy = Inr nelec"
proof -
  from assms obtain We alpha e_cutoff ECPL IC kpc f fluxcol eV where
    p: "ElectronIC_pars lib pars = Inr (We, alpha, e_cutoff)"
    and ob: "ElectronIC_objects lib We alpha e_cutoff = Inr (ECPL, IC)"
    and k: "getattr_u lib ''kpc'' = Inr kpc"
    and f: "IC_flux lib IC (DataTable data) (Some (Quantity 2 kpc)) = Inr f"
    and c: "column data ''flux'' = Inr fluxcol"
    and m: "to lib f (qunit fluxcol) = Inr model"
    and e: "getattr_u lib ''eV'' = Inr eV"
    and ee: "elec_energy = Quantity (np_logspace 11 15 100) eV"
    and n: "pdist_eval lib ECPL elec_energy = Inr nelec"
    by (auto simp: ElectronIC_def thenR_eq_Inr Let_def split: prod.splits)
  from k have kpc: "kpc = UName ''kpc''" by (simp add: getattr_u_Inr)
  from e have eV: "eV = UName ''eV''" by (simp add: getattr_u_Inr)
  from m have mu: "qunit model = qunit fluxcol" by (auto simp: to_Inr)
  show ?thesis
    using p ob f c m mu n elec_energy_grid unfolding ee kpc eV by (intro exI) simp
qed

theorem ElectronIC_result_witness:
  "ElectronIC sample_extern [0, 3, 1]
     [(''energy'', Quantity [1, 2] (UName ''TeV'')), (''flux'', Quantity [3, 4] (UStr ''1/(cm2 s TeV)''))] =
     Inr (Quantity [1, 4] (UStr ''1/(cm2 s TeV)''),
          (Quantity (np_logspace 11 15 100) (UName ''eV''),
           Quantity (map (\<lambda>E. 1) (np_logspace 11 15 100)) (UStr ''1/eV''))) \<and>
   length (np_logspace 11 15 100) = 100 \<and>
   np_logspace 11 15 100 ! 0 = 10 ^ 11 \<and>
   np_logspace 11 15 100 ! 99 = 10 ^ 15"
proof -
  let ?data = "[(''energy'', Quantity [1, 2] (UName ''TeV'')), (''flux'', Quantity [3, 4] (UStr ''1/(cm2 s TeV)''))]"
  have run: "ElectronIC sample_extern [0, 3, 1] ?data =
     Inr (Quantity [1, 4] (UStr ''1/(cm2 s TeV)''),
          (Quantity (np_logspace 11 15 100) (UName ''eV''),
           Quantity (map (\<lambda>E. 1) (np_logspace 11 15 100)) (UStr ''1/eV'')))"
    by (simp add: ElectronIC_def sample_pars sample_objects)
       (simp add: sample_extern_def astropy_names_def getattr_u_def sample_flux_def column_def to_def)
  from ElectronIC_result [OF run] show ?thesis using run by auto
qed

section \<open>Exceptions reach the caller\<close>

text \<open>
  Claim C8. A failure inside \<open>calc\<close> or \<open>ElectronIC\<close> reaches the caller as the exception
  that was raised; it is not caught, and no value is returned in its place. The theorem
  goes through the operations of the two functions that can fail, in the order in which the
  code performs them. For \<open>calc\<close>: unpacking \<open>p\<close>, reading \<open>xlo\<close>, the attributes \<open>keV\<close>,
  \<open>TeV\<close>, \<open>K\<close>, \<open>ev\<close> and \<open>cm\<close> of \<open>astropy.units\<close>, the constructor of the particle
  distribution, the constructor of the scattering model, its flux, the conversion of the
  flux, the product of energies and flux, the conversion of the photons, and with \<open>verbose\<close>
  set \<open>trapz_loglog\<close> and the conversion of its result. For \<open>ElectronIC\<close>: indexing \<open>pars\<close>,
  the two powers of ten, the attributes \<open>erg\<close>, \<open>TeV\<close>, \<open>eV\<close> and \<open>kpc\<close>, the two
  constructors, \<open>set_We\<close>, the flux, the \<open>flux\<close> column of the table, the conversion of the
  flux, and the evaluation of the particle distribution. In each case: if what comes before
  has returned and the operation raises \<open>e\<close>, the call raises \<open>e\<close>.
\<close>

theorem failures_propagate:
  "(length p \<noteq> 10 \<longrightarrow>
      calc lib p x xhi = Inl ValueError) \<and>
   (length p = 10 \<longrightarrow>
      calc lib p x (Some hi) = Inl (NameError ''xlo'')) \<and>
   (length p = 10 \<and>
    ''keV'' \<notin> set (unit_names lib) \<longrightarrow>
      calc lib p x None = Inl (AttributeError ''keV'')) \<and>
   (length p = 10 \<and>
    ''keV'' \<in> set (unit_names lib) \<and>
    ''TeV'' \<notin> set (unit_names lib) \<longrightarrow>
      calc lib p x None = Inl (AttributeError ''TeV'')) \<and>
   (unpack p = Inr pr \<and>
    ''keV'' \<in> set (unit_names lib) \<and>
    ''TeV'' \<in> set (unit_names lib) \<and>
    cutoff pr = 0 \<and>
    new_pdist lib (PowerLaw (Quantity (ampl pr) (UStr ''1/eV'')) (Quantity (ref pr) (UName
      ''TeV'')) (index pr)) = Some e \<longrightarrow>
      calc lib p x None = Inl e) \<and>
   (unpack p = Inr pr \<and>
    ''keV'' \<in> set (unit_names lib) \<and>
    ''TeV'' \<in> set (unit_names lib) \<and>
    cutoff pr \<noteq> 0 \<and>
    new_pdist lib (ExponentialCutoffPowerLaw (Quantity (ampl pr) (UStr ''1/eV'')) (Quantity
      (ref pr) (UName ''TeV'')) (index pr) (Quantity (cutoff pr) (UName ''TeV'')) (Some (beta
      pr))) = Some e \<longrightarrow>
      calc lib p x None = Inl e) \<and>
   (unpack p = Inr pr \<and>
    ''keV'' \<in> set (unit_names lib) \<and>
    calc_pdist lib pr = Inr pd \<and>
    (0 < uFIR pr \<or> 0 < uNIR pr) \<and>
    ''K'' \<notin> set (unit_names lib) \<longrightarrow>
      calc lib p x None = Inl (AttributeError ''K'')) \<and>
   (unpack p = Inr pr \<and>
    ''keV'' \<in> set (unit_names lib) \<and>
    calc_pdist lib pr = Inr pd \<and>
    (0 < uFIR pr \<or> 0 < uNIR pr) \<and>
    ''K'' \<in> set (unit_names lib) \<and>
    ''ev'' \<notin> set (unit_names lib) \<longrightarrow>
      calc lib p x None = Inl (AttributeError ''ev'')) \<and>
   (unpack p = Inr pr \<and>
    ''keV'' \<in> set (unit_names lib) \<and>
    calc_pdist lib pr = Inr pd \<and>
    (0 < uFIR pr \<or> 0 < uNIR pr) \<and>
    ''K'' \<in> set (unit_names lib) \<and>
    ''ev'' \<in> set (unit_names lib) \<and>
    ''cm'' \<notin> set (unit_names lib) \<longrightarrow>
      calc lib p x None = Inl (AttributeError ''cm'')) \<and>
   (unpack p = Inr pr \<and>
    ''keV'' \<in> set (unit_names lib) \<and>
    calc_pdist lib pr = Inr pd \<and>
    calc_seedspec lib pr = Inr seedspec \<and>
    new_IC lib \<lparr>particle_distribution = pd, seed_photon_fields = seedspec, ic_kwargs =
      [(''log10gmin'', 5), (''log10gmax'', 10), (''ngamd'', 100)]\<rparr> = Some e \<longrightarrow>
      calc lib p x None = Inl e) \<and>
   (unpack p = Inr pr \<and>
    ''keV'' \<in> set (unit_names lib) \<and>
    calc_pdist lib pr = Inr pd \<and>
    calc_seedspec lib pr = Inr seedspec \<and>
    new_IC lib \<lparr>particle_distribution = pd, seed_photon_fields = seedspec, ic_kwargs =
      [(''log10gmin'', 5), (''log10gmax'', 10), (''ngamd'', 100)]\<rparr> = None \<and>
    IC_flux lib \<lparr>particle_distribution = pd, seed_photon_fields = seedspec, ic_kwargs =
      [(''log10gmin'', 5), (''log10gmax'', 10), (''ngamd'', 100)]\<rparr> (Energies (Quantity x
      (UName ''keV''))) None = Inl e \<longrightarrow>
      calc lib p x None = Inl e) \<and>
   (unpack p = Inr pr \<and>
    ''keV'' \<in> set (unit_names lib) \<and>
    calc_pdist lib pr = Inr pd \<and>
    calc_seedspec lib pr = Inr seedspec \<and>
    new_IC lib \<lparr>particle_distribution = pd, seed_photon_fields = seedspec, ic_kwargs =
      [(''log10gmin'', 5), (''log10gmax'', 10), (''ngamd'', 100)]\<rparr> = None \<and>
    IC_flux lib \<lparr>particle_distribution = pd, seed_photon_fields = seedspec, ic_kwargs =
      [(''log10gmin'', 5), (''log10gmax'', 10), (''ngamd'', 100)]\<rparr> (Energies (Quantity x
      (UName ''keV''))) None = Inr f \<and>
    unit_scale lib (qunit f) (UStr ''1/(s cm2 keV)'') = Inl e \<longrightarrow>
      calc lib p x None = Inl e) \<and>
   (unpack p = Inr pr \<and>
    ''keV'' \<in> set (unit_names lib) \<and>
    calc_pdist lib pr = Inr pd \<and>
    calc_seedspec lib pr = Inr seedspec \<and>
    calc_model lib pd seedspec (Quantity x (UName ''keV'')) = Inr model \<and>
    length (qvalue model) \<noteq> length x \<and>
    length x \<noteq> 1 \<and>
    length (qvalue model) \<noteq> 1 \<longrightarrow>
      calc lib p x None = Inl ValueError) \<and>
   (unpack p = Inr pr \<and>
    ''keV'' \<in> set (unit_names lib) \<and>
    calc_pdist lib pr = Inr pd \<and>
    calc_seedspec lib pr = Inr seedspec \<and>
    calc_model lib pd seedspec (Quantity x (UName ''keV'')) = Inr model \<and>
    qmul (Quantity x (UName ''keV'')) model = Inr om \<and>
    unit_scale lib (qunit om) (UStr ''1/(s cm2)'') = Inl e \<longrightarrow>
      calc lib p x None = Inl e) \<and>
   (unpack p = Inr pr \<and>
    ''keV'' \<in> set (unit_names lib) \<and>
    calc_pdist lib pr = Inr pd \<and>
    calc_seedspec lib pr = Inr seedspec \<and>
    calc_model lib pd seedspec (Quantity x (UName ''keV'')) = Inr model \<and>
    qmul (Quantity x (UName ''keV'')) model = Inr om \<and>
    photons_points lib (Quantity x (UName ''keV'')) model = Inr photons \<and>
    verbose pr \<noteq> 0 \<and>
    trapz_loglog lib om (Quantity x (UName ''keV'')) = Inl e \<longrightarrow>
      calc lib p x None = Inl e) \<and>
   (unpack p = Inr pr \<and>
    ''keV'' \<in> set (unit_names lib) \<and>
    calc_pdist lib pr = Inr pd \<and>
    calc_seedspec lib pr = Inr seedspec \<and>
    calc_model lib pd seedspec (Quantity x (UName ''keV'')) = Inr model \<and>
    qmul (Quantity x (UName ''keV'')) model = Inr om \<and>
    photons_points lib (Quantity x (UName ''keV'')) model = Inr photons \<and>
    verbose pr \<noteq> 0 \<and>
    trapz_loglog lib om (Quantity x (UName ''keV'')) = Inr t \<and>
    unit_scale lib (qunit t) (UStr ''erg/(s cm2)'') = Inl e \<longrightarrow>
      calc lib p x None = Inl e) \<and>
   (pars = [] \<longrightarrow>
      ElectronIC lib pars data = Inl IndexError) \<and>
   (pars \<noteq> [] \<and>
    float_max < 10 powr (pars ! 0) \<longrightarrow>
      ElectronIC lib pars data = Inl OverflowError) \<and>
   (pars \<noteq> [] \<and>
    10 powr (pars ! 0) \<le> float_max \<and>
    ''erg'' \<notin> set (unit_names lib) \<longrightarrow>
      ElectronIC lib pars data = Inl (AttributeError ''erg'')) \<and>
   (pars \<noteq> [] \<and>
    10 powr (pars ! 0) \<le> float_max \<and>
    ''erg'' \<in> set (unit_names lib) \<and>
    length pars < 3 \<longrightarrow>
      ElectronIC lib pars data = Inl IndexError) \<and>
   (3 \<le> length pars \<and>
    10 powr (pars ! 0) \<le> float_max \<and>
    ''erg'' \<in> set (unit_names lib) \<and>
    float_max < 10 powr (pars ! 2) \<longrightarrow>
      ElectronIC lib pars data = Inl OverflowError) \<and>
   (3 \<le> length pars \<and>
    10 powr (pars ! 0) \<le> float_max \<and>
    ''erg'' \<in> set (unit_names lib) \<and>
    10 powr (pars ! 2) \<le> float_max \<and>
    ''TeV'' \<notin> set (unit_names lib) \<longrightarrow>
      ElectronIC lib pars data = Inl (AttributeError ''TeV'')) \<and>
   (ElectronIC_pars lib pars = Inr (We, alpha, e_cutoff) \<and>
    ''eV'' \<notin> set (unit_names lib) \<longrightarrow>
      ElectronIC lib pars data = Inl (AttributeError ''eV'')) \<and>
   (ElectronIC_pars lib pars = Inr (We, alpha, e_cutoff) \<and>
    ''eV'' \<in> set (unit_names lib) \<and>
    new_pdist lib (ExponentialCutoffPowerLaw (Quantity 1 (UInv (UName ''eV''))) (Quantity 10
      (UName ''TeV'')) alpha e_cutoff None) = Some e \<longrightarrow>
      ElectronIC lib pars data = Inl e) \<and>
   (ElectronIC_pars lib pars = Inr (We, alpha, e_cutoff) \<and>
    ''eV'' \<in> set (unit_names lib) \<and>
    new_pdist lib (ExponentialCutoffPowerLaw (Quantity 1 (UInv (UName ''eV''))) (Quantity 10
      (UName ''TeV'')) alpha e_cutoff None) = None \<and>
    new_IC lib \<lparr>particle_distribution = ExponentialCutoffPowerLaw (Quantity 1 (UInv
      (UName ''eV''))) (Quantity 10 (UName ''TeV'')) alpha e_cutoff None, seed_photon_fields =
      [SeedName ''CMB''], ic_kwargs = []\<rparr> = Some e \<longrightarrow>
      ElectronIC lib pars data = Inl e) \<and>
   (ElectronIC_pars lib pars = Inr (We, alpha, e_cutoff) \<and>
    ''eV'' \<in> set (unit_names lib) \<and>
    new_pdist lib (ExponentialCutoffPowerLaw (Quantity 1 (UInv (UName ''eV''))) (Quantity 10
      (UName ''TeV'')) alpha e_cutoff None) = None \<and>
    new_IC lib \<lparr>particle_distribution = ExponentialCutoffPowerLaw (Quantity 1 (UInv
      (UName ''eV''))) (Quantity 10 (UName ''TeV'')) alpha e_cutoff None, seed_photon_fields =
      [SeedName ''CMB''], ic_kwargs = []\<rparr> = None \<and>
    IC_set_We lib \<lparr>particle_distribution = ExponentialCutoffPowerLaw (Quantity 1 (UInv
      (UName ''eV''))) (Quantity 10 (UName ''TeV'')) alpha e_cutoff None, seed_photon_fields =
      [SeedName ''CMB''], ic_kwargs = []\<rparr> We (Quantity 1 (UName ''TeV'')) = Inl e \<longrightarrow>
      ElectronIC lib pars data = Inl e) \<and>
   (ElectronIC_pars lib pars = Inr (We, alpha, e_cutoff) \<and>
    ElectronIC_objects lib We alpha e_cutoff = Inr (ECPL, IC) \<and>
    ''kpc'' \<notin> set (unit_names lib) \<longrightarrow>
      ElectronIC lib pars data = Inl (AttributeError ''kpc'')) \<and>
   (ElectronIC_pars lib pars = Inr (We, alpha, e_cutoff) \<and>
    ElectronIC_objects lib We alpha e_cutoff = Inr (ECPL, IC) \<and>
    ''kpc'' \<in> set (unit_names lib) \<and>
    IC_flux lib IC (DataTable data) (Some (Quantity 2 (UName ''kpc''))) = Inl e \<longrightarrow>
      ElectronIC lib pars data = Inl e) \<and>
   (ElectronIC_pars lib pars = Inr (We, alpha, e_cutoff) \<and>
    ElectronIC_objects lib We alpha e_cutoff = Inr (ECPL, IC) \<and>
    ''kpc'' \<in> set (unit_names lib) \<and>
    IC_flux lib IC (DataTable data) (Some (Quantity 2 (UName ''kpc''))) = Inr f \<and>
    map_of data ''flux'' = None \<longrightarrow>
      ElectronIC lib pars data = Inl (KeyError ''flux'')) \<and>
   (ElectronIC_pars lib pars = Inr (We, alpha, e_cutoff) \<and>
    ElectronIC_objects lib We alpha e_cutoff = Inr (ECPL, IC) \<and>
    ''kpc'' \<in> set (unit_names lib) \<and>
    IC_flux lib IC (DataTable data) (Some (Quantity 2 (UName ''kpc''))) = Inr f \<and>
    map_of data ''flux'' = Some fluxcol \<and>
    unit_scale lib (qunit f) (qunit fluxcol) = Inl e \<longrightarrow>
      ElectronIC lib pars data = Inl e) \<and>
   (ElectronIC_pars lib pars = Inr (We, alpha, e_cutoff) \<and>
    ElectronIC_objects lib We alpha e_cutoff = Inr (ECPL, IC) \<and>
    ''kpc'' \<in> set (unit_names lib) \<and>
    IC_flux lib IC (DataTable data) (Some (Quantity 2 (UName ''kpc''))) = Inr f \<and>
    map_of data ''flux'' = Some fluxcol \<and>
    unit_scale lib (qunit f) (qunit fluxcol) = Inr c \<and>
    pdist_eval lib ECPL (Quantity (np_logspace 11 15 100) (UName ''eV'')) = Inl e \<longrightarrow>
      ElectronIC lib pars data = Inl e)"
proof (intro conjI impI)
  assume a: "length p \<noteq> 10"
  then show "calc lib p x xhi = Inl ValueError"
    by (auto simp: calc_def unpack_length)
next
  assume a: "length p = 10"
  then show "calc lib p x (Some hi) = Inl (NameError ''xlo'')"
    by (auto simp: calc_def calc_outspec_def calc_name_xlo_def unpack_ok)
next
  assume a: "length p = 10 \<and>
          ''keV'' \<notin> set (unit_names lib)"
  then show "calc lib p x None = Inl (AttributeError ''keV'')"
    by (auto simp: calc_def calc_outspec_def unpack_ok getattr_u_def)
next
  assume a: "length p = 10 \<and>
          ''keV'' \<in> set (unit_names lib) \<and>
          ''TeV'' \<notin> set (unit_names lib)"
  then show "calc lib p x None = Inl (AttributeError ''TeV'')"
    by (auto simp: calc_def calc_outspec_def calc_pdist_def unpack_ok getattr_u_def)
next
  assume a: "unpack p = Inr pr \<and>
          ''keV'' \<in> set (unit_names lib) \<and>
          ''TeV'' \<in> set (unit_names lib) \<and>
          cutoff pr = 0 \<and>
          new_pdist lib (PowerLaw (Quantity (ampl pr) (UStr ''1/eV'')) (Quantity (ref pr)
            (UName ''TeV'')) (index pr)) = Some e"
  then show "calc lib p x None = Inl e"
    by (auto simp: calc_def calc_outspec_def calc_pdist_def construct_def getattr_u_def)
next
  assume a: "unpack p = Inr pr \<and>
          ''keV'' \<in> set (unit_names lib) \<and>
          ''TeV'' \<in> set (unit_names lib) \<and>
          cutoff pr \<noteq> 0 \<and>
          new_pdist lib (ExponentialCutoffPowerLaw (Quantity (ampl pr) (UStr ''1/eV''))
            (Quantity (ref pr) (UName ''TeV'')) (index pr) (Quantity (cutoff pr) (UName
            ''TeV'')) (Some (beta pr))) = Some e"
  then show "calc lib p x None = Inl e"
    by (auto simp: calc_def calc_outspec_def calc_pdist_def construct_def getattr_u_def)
next
  assume a: "unpack p = Inr pr \<and>
          ''keV'' \<in> set (unit_names lib) \<and>
          calc_pdist lib pr = Inr pd \<and>
          (0 < uFIR pr \<or> 0 < uNIR pr) \<and>
          ''K'' \<notin> set (unit_names lib)"
  then show "calc lib p x None = Inl (AttributeError ''K'')"
    by (auto simp: calc_def calc_outspec_def calc_seedspec_def calc_field_def getattr_u_def)
next
  assume a: "unpack p = Inr pr \<and>
          ''keV'' \<in> set (unit_names lib) \<and>
          calc_pdist lib pr = Inr pd \<and>
          (0 < uFIR pr \<or> 0 < uNIR pr) \<and>
          ''K'' \<in> set (unit_names lib) \<and>
          ''ev'' \<notin> set (unit_names lib)"
  then show "calc lib p x None = Inl (AttributeError ''ev'')"
    by (auto simp: calc_def calc_outspec_def calc_seedspec_def calc_field_def getattr_u_def)
next
  assume a: "unpack p = Inr pr \<and>
          ''keV'' \<in> set (unit_names lib) \<and>
          calc_pdist lib pr = Inr pd \<and>
          (0 < uFIR pr \<or> 0 < uNIR pr) \<and>
          ''K'' \<in> set (unit_names lib) \<and>
          ''ev'' \<in> set (unit_names lib) \<and>
          ''cm'' \<notin> set (unit_names lib)"
  then show "calc lib p x None = Inl (AttributeError ''cm'')"
    by (auto simp: calc_def calc_outspec_def calc_seedspec_def calc_field_def getattr_u_def)
next
  assume a: "unpack p = Inr pr \<and>
          ''keV'' \<in> set (unit_names lib) \<and>
          calc_pdist lib pr = Inr pd \<and>
          calc_seedspec lib pr = Inr seedspec \<and>
          new_IC lib \<lparr>particle_distribution = pd, seed_photon_fields = seedspec,
            ic_kwargs = [(''log10gmin'', 5), (''log10gmax'', 10), (''ngamd'', 100)]\<rparr> =
            Some e"
  then show "calc lib p x None = Inl e"
    by (auto simp: calc_def calc_outspec_def calc_model_def construct_def to_def getattr_u_def)
next
  assume a: "unpack p = Inr pr \<and>
          ''keV'' \<in> set (unit_names lib) \<and>
          calc_pdist lib pr = Inr pd \<and>
          calc_seedspec lib pr = Inr seedspec \<and>
          new_IC lib \<lparr>particle_distribution = pd, seed_photon_fields = seedspec,
            ic_kwargs = [(''log10gmin'', 5), (''log10gmax'', 10), (''ngamd'', 100)]\<rparr> =
            None \<and>
          IC_flux lib \<lparr>particle_distribution = pd, seed_photon_fields = seedspec,
            ic_kwargs = [(''log10gmin'', 5), (''log10gmax'', 10), (''ngamd'', 100)]\<rparr>
            (Energies (Quantity x (UName ''keV''))) None = Inl e"
  then show "calc lib p x None = Inl e"
    by (auto simp: calc_def calc_outspec_def calc_model_def construct_def to_def getattr_u_def)
next
  assume a: "unpack p = Inr pr \<and>
          ''keV'' \<in> set (unit_names lib) \<and>
          calc_pdist lib pr = Inr pd \<and>
          calc_seedspec lib pr = Inr seedspec \<and>
          new_IC lib \<lparr>particle_distribution = pd, seed_photon_fields = seedspec,
            ic_kwargs = [(''log10gmin'', 5), (''log10gmax'', 10), (''ngamd'', 100)]\<rparr> =
            None \<and>
          IC_flux lib \<lparr>particle_distribution = pd, seed_photon_fields = seedspec,
            ic_kwargs = [(''log10gmin'', 5), (''log10gmax'', 10), (''ngamd'', 100)]\<rparr>
            (Energies (Quantity x (UName ''keV''))) None = Inr f \<and>
          unit_scale lib (qunit f) (UStr ''1/(s cm2 keV)'') = Inl e"
  then show "calc lib p x None = Inl e"
    by (auto simp: calc_def calc_outspec_def calc_model_def construct_def to_def getattr_u_def)
next
  assume a: "unpack p = Inr pr \<and>
          ''keV'' \<in> set (unit_names lib) \<and>
          calc_pdist lib pr = Inr pd \<and>
          calc_seedspec lib pr = Inr seedspec \<and>
          calc_model lib pd seedspec (Quantity x (UName ''keV'')) = Inr model \<and>
          length (qvalue model) \<noteq> length x \<and>
          length x \<noteq> 1 \<and>
          length (qvalue model) \<noteq> 1"
  then show "calc lib p x None = Inl ValueError"
    by (auto simp: calc_def calc_outspec_def photons_points_def qmul_def np_binop_def getattr_u_def)
next
  assume a: "unpack p = Inr pr \<and>
          ''keV'' \<in> set (unit_names lib) \<and>
          calc_pdist lib pr = Inr pd \<and>
          calc_seedspec lib pr = Inr seedspec \<and>
          calc_model lib pd seedspec (Quantity x (UName ''keV'')) = Inr model \<and>
          qmul (Quantity x (UName ''keV'')) model = Inr om \<and>
          unit_scale lib (qunit om) (UStr ''1/(s cm2)'') = Inl e"
  then show "calc lib p x None = Inl e"
    by (auto simp: calc_def calc_outspec_def photons_points_def to_def getattr_u_def)
next
  assume a: "unpack p = Inr pr \<and>
          ''keV'' \<in> set (unit_names lib) \<and>
          calc_pdist lib pr = Inr pd \<and>
          calc_seedspec lib pr = Inr seedspec \<and>
          calc_model lib pd seedspec (Quantity x (UName ''keV'')) = Inr model \<and>
          qmul (Quantity x (UName ''keV'')) model = Inr om \<and>
          photons_points lib (Quantity x (UName ''keV'')) model = Inr photons \<and>
          verbose pr \<noteq> 0 \<and>
          trapz_loglog lib om (Quantity x (UName ''keV'')) = Inl e"
  then show "calc lib p x None = Inl e"
    by (auto simp: calc_def calc_outspec_def calc_verbose_def getattr_u_def)
next
  assume a: "unpack p = Inr pr \<and>
          ''keV'' \<in> set (unit_names lib) \<and>
          calc_pdist lib pr = Inr pd \<and>
          calc_seedspec lib pr = Inr seedspec \<and>
          calc_model lib pd seedspec (Quantity x (UName ''keV'')) = Inr model \<and>
          qmul (Quantity x (UName ''keV'')) model = Inr om \<and>
          photons_points lib (Quantity x (UName ''keV'')) model = Inr photons \<and>
          verbose pr \<noteq> 0 \<and>
          trapz_loglog lib om (Quantity x (UName ''keV'')) = Inr t \<and>
          unit_scale lib (qunit t) (UStr ''erg/(s cm2)'') = Inl e"
  then show "calc lib p x None = Inl e"
    by (auto simp: calc_def calc_outspec_def calc_verbose_def getattr_u_def)
next
  assume a: "pars = []"
  then show "ElectronIC lib pars data = Inl IndexError"
    by (auto simp: ElectronIC_def ElectronIC_pars_def item_def pow10_def getattr_u_def)
next
  assume a: "pars \<noteq> [] \<and>
          float_max < 10 powr (pars ! 0)"
  then show "ElectronIC lib pars data = Inl OverflowError"
    by (auto simp: ElectronIC_def ElectronIC_pars_def item_def pow10_def getattr_u_def)
next
  assume a: "pars \<noteq> [] \<and>
          10 powr (pars ! 0) \<le> float_max \<and>
          ''erg'' \<notin> set (unit_names lib)"
  then show "ElectronIC lib pars data = Inl (AttributeError ''erg'')"
    by (auto simp: ElectronIC_def ElectronIC_pars_def item_def pow10_def getattr_u_def)
next
  assume a: "pars \<noteq> [] \<and>
          10 powr (pars ! 0) \<le> float_max \<and>
          ''erg'' \<in> set (unit_names lib) \<and>
          length pars < 3"
  then show "ElectronIC lib pars data = Inl IndexError"
    by (auto simp: ElectronIC_def ElectronIC_pars_def item_def pow10_def getattr_u_def)
next
  assume a: "3 \<le> length pars \<and>
          10 powr (pars ! 0) \<le> float_max \<and>
          ''erg'' \<in> set (unit_names lib) \<and>
          float_max < 10 powr (pars ! 2)"
  then show "ElectronIC lib pars data = Inl OverflowError"
    by (auto simp: ElectronIC_def ElectronIC_pars_def item_def pow10_def getattr_u_def)
next
  assume a: "3 \<le> length pars \<and>
          10 powr (pars ! 0) \<le> float_max \<and>
          ''erg'' \<in> set (unit_names lib) \<and>
          10 powr (pars ! 2) \<le> float_max \<and>
          ''TeV'' \<notin> set (unit_names lib)"
  then show "ElectronIC lib pars data = Inl (AttributeError ''TeV'')"
    by (auto simp: ElectronIC_def ElectronIC_pars_def item_def pow10_def getattr_u_def)
next
  assume a: "ElectronIC_pars lib pars = Inr (We, alpha, e_cutoff) \<and>
          ''eV'' \<notin> set (unit_names lib)"
  then have "''TeV'' \<in> set (unit_names lib)"
    by (simp add: ElectronIC_pars_Inr)
  with a show "ElectronIC lib pars data = Inl (AttributeError ''eV'')"
    by (auto simp: ElectronIC_def ElectronIC_objects_def construct_def getattr_u_def)
next
  assume a: "ElectronIC_pars lib pars = Inr (We, alpha, e_cutoff) \<and>
          ''eV'' \<in> set (unit_names lib) \<and>
          new_pdist lib (ExponentialCutoffPowerLaw (Quantity 1 (UInv (UName ''eV'')))
            (Quantity 10 (UName ''TeV'')) alpha e_cutoff None) = Some e"
  then have "''TeV'' \<in> set (unit_names lib)"
    by (simp add: ElectronIC_pars_Inr)
  with a show "ElectronIC lib pars data = Inl e"
    by (auto simp: ElectronIC_def ElectronIC_objects_def construct_def getattr_u_def)
next
  assume a: "ElectronIC_pars lib pars = Inr (We, alpha, e_cutoff) \<and>
          ''eV'' \<in> set (unit_names lib) \<and>
          new_pdist lib (ExponentialCutoffPowerLaw (Quantity 1 (UInv (UName ''eV'')))
            (Quantity 10 (UName ''TeV'')) alpha e_cutoff None) = None \<and>
          new_IC lib \<lparr>particle_distribution = ExponentialCutoffPowerLaw (Quantity 1
            (UInv (UName ''eV''))) (Quantity 10 (UName ''TeV'')) alpha e_cutoff None,
            seed_photon_fields = [SeedName ''CMB''], ic_kwargs = []\<rparr> = Some e"
  then have "''TeV'' \<in> set (unit_names lib)"
    by (simp add: ElectronIC_pars_Inr)
  with a show "ElectronIC lib pars data = Inl e"
    by (auto simp: ElectronIC_def ElectronIC_objects_def construct_def getattr_u_def)
next
  assume a: "ElectronIC_pars lib pars = Inr (We, alpha, e_cutoff) \<and>
          ''eV'' \<in> set (unit_names lib) \<and>
          new_pdist lib (ExponentialCutoffPowerLaw (Quantity 1 (UInv (UName ''eV'')))
            (Quantity 10 (UName ''TeV'')) alpha e_cutoff None) = None \<and>
          new_IC lib \<lparr>particle_distribution = ExponentialCutoffPowerLaw (Quantity 1
            (UInv (UName ''eV''))) (Quantity 10 (UName ''TeV'')) alpha e_cutoff None,
            seed_photon_fields = [SeedName ''CMB''], ic_kwargs = []\<rparr> = None \<and>
          IC_set_We lib \<lparr>particle_distribution = ExponentialCutoffPowerLaw (Quantity 1
            (UInv (UName ''eV''))) (Quantity 10 (UName ''TeV'')) alpha e_cutoff None,
            seed_photon_fields = [SeedName ''CMB''], ic_kwargs = []\<rparr> We (Quantity 1
            (UName ''TeV'')) = Inl e"
  then have "''TeV'' \<in> set (unit_names lib)"
    by (simp add: ElectronIC_pars_Inr)
  with a show "ElectronIC lib pars data = Inl e"
    by (auto simp: ElectronIC_def ElectronIC_objects_def construct_def getattr_u_def)
next
  assume a: "ElectronIC_pars lib pars = Inr (We, alpha, e_cutoff) \<and>
          ElectronIC_objects lib We alpha e_cutoff = Inr (ECPL, IC) \<and>
          ''kpc'' \<notin> set (unit_names lib)"
  then have "''eV'' \<in> set (unit_names lib)"
    by (simp add: ElectronIC_objects_Inr)
  with a show "ElectronIC lib pars data = Inl (AttributeError ''kpc'')"
    by (auto simp: ElectronIC_def column_def to_def getattr_u_def)
next
  assume a: "ElectronIC_pars lib pars = Inr (We, alpha, e_cutoff) \<and>
          ElectronIC_objects lib We alpha e_cutoff = Inr (ECPL, IC) \<and>
          ''kpc'' \<in> set (unit_names lib) \<and>
          IC_flux lib IC (DataTable data) (Some (Quantity 2 (UName ''kpc''))) = Inl e"
  then have "''eV'' \<in> set (unit_names lib)"
    by (simp add: ElectronIC_objects_Inr)
  with a show "ElectronIC lib pars data = Inl e"
    by (auto simp: ElectronIC_def column_def to_def getattr_u_def)
next
  assume a: "ElectronIC_pars lib pars = Inr (We, alpha, e_cutoff) \<and>
          ElectronIC_objects lib We alpha e_cutoff = Inr (ECPL, IC) \<and>
          ''kpc'' \<in> set (unit_names lib) \<and>
          IC_flux lib IC (DataTable data) (Some (Quantity 2 (UName ''kpc''))) = Inr f \<and>
          map_of data ''flux'' = None"
  then have "''eV'' \<in> set (unit_names lib)"
    by (simp add: ElectronIC_objects_Inr)
  with a show "ElectronIC lib pars data = Inl (KeyError ''flux'')"
    by (auto simp: ElectronIC_def column_def to_def getattr_u_def)
next
  assume a: "ElectronIC_pars lib pars = Inr (We, alpha, e_cutoff) \<and>
          ElectronIC_objects lib We alpha e_cutoff = Inr (ECPL, IC) \<and>
          ''kpc'' \<in> set (unit_names lib) \<and>
          IC_flux lib IC (DataTable data) (Some (Quantity 2 (UName ''kpc''))) = Inr f \<and>
          map_of data ''flux'' = Some fluxcol \<and>
          unit_scale lib (qunit f) (qunit fluxcol) = Inl e"
  then have "''eV'' \<in> set (unit_names lib)"
    by (simp add: ElectronIC_objects_Inr)
  with a show "ElectronIC lib pars data = Inl e"
    by (auto simp: ElectronIC_def column_def to_def getattr_u_def)
next
  assume a: "ElectronIC_pars lib pars = Inr (We, alpha, e_cutoff) \<and>
          ElectronIC_objects lib We alpha e_cutoff = Inr (ECPL, IC) \<and>
          ''kpc'' \<in> set (unit_names lib) \<and>
          IC_flux lib IC (DataTable data) (Some (Quantity 2 (UName ''kpc''))) = Inr f \<and>
          map_of data ''flux'' = Some fluxcol \<and>
          unit_scale lib (qunit f) (qunit fluxcol) = Inr c \<and>
          pdist_eval lib ECPL (Quantity (np_logspace 11 15 100) (UName ''eV'')) = Inl e"
  then have "''eV'' \<in> set (unit_names lib)"
    by (simp add: ElectronIC_objects_Inr)
  with a show "ElectronIC lib pars data = Inl e"
    by (auto simp: ElectronIC_def column_def to_def getattr_u_def)
qed

theorem failures_propagate_witness:
  "calc sample_extern [2, 20, 1] [1, 2] None = Inl ValueError \<and>
   calc (sample_extern\<lparr>IC_flux := (\<lambda>ic arg d. Inl (LibraryError ''flux''))\<rparr>)
     [2, 20, 1, 0, 1, 70, 0, 3800, 0, 0] [1, 2] None = Inl (LibraryError ''flux'') \<and>
   calc (sample_extern\<lparr>new_IC := (\<lambda>ic. Some (LibraryError ''InverseCompton''))\<rparr>)
     [2, 20, 1, 0, 1, 70, 0, 3800, 0, 0] [1, 2] None = Inl (LibraryError ''InverseCompton'') \<and>
   calc sample_extern [2, 20, 1, 30, 1, 70, 0, 3800, 0.3, 0] [1, 2] None = Inl (AttributeError ''ev'') \<and>
   calc (sample_extern\<lparr>trapz_loglog := (\<lambda>y q. Inl (LibraryError ''trapz_loglog''))\<rparr>)
     [2, 20, 1, 0, 1, 70, 0, 3800, 0, 1] [1, 2] None = Inl (LibraryError ''trapz_loglog'') \<and>
   ElectronIC sample_extern [309, 3, 1]
     [(''energy'', Quantity [1, 2] (UName ''TeV'')), (''flux'', Quantity [3, 4] (UStr ''1/(cm2 s TeV)''))] =
     Inl OverflowError \<and>
   ElectronIC sample_extern [0, 3]
     [(''energy'', Quantity [1, 2] (UName ''TeV'')), (''flux'', Quantity [3, 4] (UStr ''1/(cm2 s TeV)''))] =
     Inl IndexError \<and>
   ElectronIC (sample_extern\<lparr>IC_set_We := (\<lambda>ic We Eemin. Inl (LibraryError ''set_We''))\<rparr>) [0, 3, 1]
     [(''energy'', Quantity [1, 2] (UName ''TeV'')), (''flux'', Quantity [3, 4] (UStr ''1/(cm2 s TeV)''))] =
     Inl (LibraryError ''set_We'') \<and>
   ElectronIC sample_extern [0, 3, 1] [(''energy'', Quantity [1, 2] (UName ''TeV''))] =
     Inl (KeyError ''flux'') \<and>
   ElectronIC (sample_extern\<lparr>unit_scale := (\<lambda>a b. Inl (LibraryError ''UnitConversionError''))\<rparr>)
     [0, 3, 1]
     [(''energy'', Quantity [1, 2] (UName ''TeV'')), (''flux'', Quantity [3, 4] (UStr ''1/(cm2 s TeV)''))] =
     Inl (LibraryError ''UnitConversionError'')"
proof -
  let ?p = "[2, 20, 1, 0, 1, 70, 0, 3800, 0, 0 :: real]"
  let ?pr = "\<lparr>index = 2, ref = 20, ampl = 1, cutoff = 0, beta = 1,
              TFIR = 70, uFIR = 0, TNIR = 3800, uNIR = 0, verbose = 0 :: real\<rparr>"
  let ?pd = "PowerLaw (Quantity 1 (UStr ''1/eV'')) (Quantity 20 (UName ''TeV'')) 2"
  let ?data = "[(''energy'', Quantity [1, 2] (UName ''TeV'')), (''flux'', Quantity [3, 4] (UStr ''1/(cm2 s TeV)''))]"
  let ?ecpl = "ExponentialCutoffPowerLaw (Quantity 1 (UInv (UName ''eV''))) (Quantity 10 (UName ''TeV'')) 3
                 (Quantity 10 (UName ''TeV'')) None"
  let ?ic = "\<lparr>particle_distribution = ?ecpl, seed_photon_fields = [SeedName ''CMB''], ic_kwargs = []\<rparr>"
  note defs = sample_extern_def astropy_names_def getattr_u_def construct_def sample_flux_def
    calc_pdist_def calc_seedspec_def calc_field_def calc_model_def to_def qmul_def np_binop_def
    photons_points_def
  have w1: "calc sample_extern [2, 20, 1] [1, 2] None = Inl ValueError"
    using failures_propagate [where lib = sample_extern and p = "[2, 20, 1]" and x = "[1, 2]"
        and xhi = None]
    by simp
  have w2: "calc (sample_extern\<lparr>IC_flux := (\<lambda>ic arg d. Inl (LibraryError ''flux''))\<rparr>) ?p [1, 2] None =
              Inl (LibraryError ''flux'')"
    using failures_propagate [where lib = "sample_extern\<lparr>IC_flux := (\<lambda>ic arg d. Inl (LibraryError ''flux''))\<rparr>"
        and p = ?p and x = "[1, 2]" and pr = ?pr and pd = ?pd and seedspec = "[SeedName ''CMB'']"
        and e = "LibraryError ''flux''"]
    by (simp add: defs)
  have w3: "calc (sample_extern\<lparr>new_IC := (\<lambda>ic. Some (LibraryError ''InverseCompton''))\<rparr>) ?p [1, 2] None =
              Inl (LibraryError ''InverseCompton'')"
    using failures_propagate [where lib = "sample_extern\<lparr>new_IC := (\<lambda>ic. Some (LibraryError ''InverseCompton''))\<rparr>"
        and p = ?p and x = "[1, 2]" and pr = ?pr and pd = ?pd and seedspec = "[SeedName ''CMB'']"
        and e = "LibraryError ''InverseCompton''"]
    by (simp add: defs)
  have w4: "calc sample_extern [2, 20, 1, 30, 1, 70, 0, 3800, 0.3, 0] [1, 2] None = Inl (AttributeError ''ev'')"
    using failures_propagate [where lib = sample_extern
        and p = "[2, 20, 1, 30, 1, 70, 0, 3800, 0.3, 0]" and x = "[1, 2]"
        and pr = "\<lparr>index = 2, ref = 20, ampl = 1, cutoff = 30, beta = 1,
              TFIR = 70, uFIR = 0, TNIR = 3800, uNIR = 0.3, verbose = 0\<rparr>"
        and pd = "ExponentialCutoffPowerLaw (Quantity 1 (UStr ''1/eV'')) (Quantity 20 (UName ''TeV'')) 2
                    (Quantity 30 (UName ''TeV'')) (Some 1)"]
    by (simp add: defs)
  have w5: "calc (sample_extern\<lparr>trapz_loglog := (\<lambda>y q. Inl (LibraryError ''trapz_loglog''))\<rparr>)
              [2, 20, 1, 0, 1, 70, 0, 3800, 0, 1] [1, 2] None = Inl (LibraryError ''trapz_loglog'')"
    using failures_propagate [where lib = "sample_extern\<lparr>trapz_loglog := (\<lambda>y q. Inl (LibraryError ''trapz_loglog''))\<rparr>"
        and p = "[2, 20, 1, 0, 1, 70, 0, 3800, 0, 1]" and x = "[1, 2]"
        and pr = "\<lparr>index = 2, ref = 20, ampl = 1, cutoff = 0, beta = 1,
              TFIR = 70, uFIR = 0, TNIR = 3800, uNIR = 0, verbose = 1\<rparr>"
        and pd = ?pd and seedspec = "[SeedName ''CMB'']"
        and model = "Quantity [1, 4] (UStr ''1/(s cm2 keV)'')"
        and om = "Quantity [1, 8] (UMul (UName ''keV'') (UStr ''1/(s cm2 keV)''))"
        and photons = "[1, 8]" and e = "LibraryError ''trapz_loglog''"]
    by (simp add: defs)
  have w6: "ElectronIC sample_extern [309, 3, 1] ?data = Inl OverflowError"
    using failures_propagate [where lib = sample_extern and pars = "[309, 3, 1]" and data = ?data]
    by (simp add: float_max_def)
  have w7: "ElectronIC sample_extern [0, 3] ?data = Inl IndexError"
    using failures_propagate [where lib = sample_extern and pars = "[0, 3]" and data = ?data]
    by (simp add: float_max_def sample_extern_def astropy_names_def)
  have w8: "ElectronIC (sample_extern\<lparr>IC_set_We := (\<lambda>ic We Eemin. Inl (LibraryError ''set_We''))\<rparr>) [0, 3, 1] ?data =
              Inl (LibraryError ''set_We'')"
    using failures_propagate [where lib = "sample_extern\<lparr>IC_set_We := (\<lambda>ic We Eemin. Inl (LibraryError ''set_We''))\<rparr>"
        and pars = "[0, 3, 1]" and data = ?data and We = "Quantity 1 (UName ''erg'')" and alpha = 3
        and e_cutoff = "Quantity 10 (UName ''TeV'')" and e = "LibraryError ''set_We''"]
      float_max_ge_10
    by (simp add: ElectronIC_pars_Inr sample_extern_def astropy_names_def)
  have w9: "ElectronIC sample_extern [0, 3, 1] [(''energy'', Quantity [1, 2] (UName ''TeV''))] =
              Inl (KeyError ''flux'')"
    using failures_propagate [where lib = sample_extern
        and pars = "[0, 3, 1]" and data = "[(''energy'', Quantity [1, 2] (UName ''TeV''))]"
        and We = "Quantity 1 (UName ''erg'')" and alpha = 3
        and e_cutoff = "Quantity 10 (UName ''TeV'')" and ECPL = ?ecpl and IC = ?ic
        and f = "Quantity [1, 4] (UStr ''1/(s cm2 eV)'')"]
      sample_pars sample_objects
    by (simp add: sample_extern_def astropy_names_def sample_flux_def)
  have w10: "ElectronIC (sample_extern\<lparr>unit_scale := (\<lambda>a b. Inl (LibraryError ''UnitConversionError''))\<rparr>)
               [0, 3, 1] ?data = Inl (LibraryError ''UnitConversionError'')"
    using failures_propagate [where lib = "sample_extern\<lparr>unit_scale := (\<lambda>a b. Inl (LibraryError ''UnitConversionError''))\<rparr>"
        and pars = "[0, 3, 1]" and data = ?data
        and We = "Quantity 1 (UName ''erg'')" and alpha = 3
        and e_cutoff = "Quantity 10 (UName ''TeV'')" and ECPL = ?ecpl and IC = ?ic
        and f = "Quantity [1, 4] (UStr ''1/(s cm2 eV)'')"
        and fluxcol = "Quantity [3, 4] (UStr ''1/(cm2 s TeV)'')"
        and e = "LibraryError ''UnitConversionError''"]
      float_max_ge_10
    by (simp add: ElectronIC_pars_Inr ElectronIC_objects_Inr sample_extern_def astropy_names_def sample_flux_def)
  show ?thesis using w1 w2 w3 w4 w5 w6 w7 w8 w9 w10 by simp
qed

end
